theory Spec2Isabelle
  imports Complex_Main "HOL-Library.AList"
begin

section \<open>Numbers, rounding and constants\<close>

text \<open>
  The payroll script computes with Python floats. They are modelled as exact rationals:
  every quantity below is a \<open>rat\<close>, timestamps and day counts are \<open>int\<close>.
  Python's \<open>round(x, n)\<close> returns the nearest multiple of \<open>10 ** -n\<close>. It acts on
  the binary float: where the decimal value lies exactly half way between two
  multiples, the float lies on one side or on the other (\<open>round(1.015, 2)\<close> is
  \<open>1.01\<close>, \<open>round(0.005, 2)\<close> is \<open>0.01\<close>), and the decimal value does not say
  which. The parameter \<open>tie\<close> says it: \<open>tie x\<close> holds when \<open>round\<close> takes such
  an \<open>x\<close> upwards. Every function that rounds takes \<open>tie\<close> as its first argument,
  and every theorem below holds for every \<open>tie\<close>.
\<close>

definition round_nearest :: "bool \<Rightarrow> rat \<Rightarrow> int" where
  "round_nearest up q =
     (let f = \<lfloor>q\<rfloor>; d = q - of_int f
      in if d < 1 / 2 then f
         else if 1 / 2 < d then f + 1
         else if up then f + 1 else f)"

definition py_round :: "(rat \<Rightarrow> bool) \<Rightarrow> rat \<Rightarrow> nat \<Rightarrow> rat" where
  "py_round tie x n = of_int (round_nearest (tie x) (x * 10 ^ n)) / 10 ^ n"

definition UK_MINIMUM_WAGE :: rat where
  "UK_MINIMUM_WAGE = 1221 / 100"

definition ON_CALL_ROLE_NAME :: string where
  "ON_CALL_ROLE_NAME = ''On-Call''"

definition ON_CALL_FLAT_RATE :: rat where
  "ON_CALL_FLAT_RATE = 15"

section \<open>Dates and the 11th-to-10th payroll period\<close>

text \<open>
  \<open>datetime.date(y, m, d)\<close> raises \<open>ValueError\<close> unless the year lies between
  \<open>MINYEAR = 1\<close> and \<open>MAXYEAR = 9999\<close>, the month between 1 and 12 and the day
  between 1 and the length of that month. \<open>py_date\<close> is that constructor, the error
  being \<open>None\<close>.
\<close>

record date =
  year :: int
  month :: int
  day :: int

definition MINYEAR :: int where "MINYEAR = 1"
definition MAXYEAR :: int where "MAXYEAR = 9999"

definition is_leap :: "int \<Rightarrow> bool" where
  "is_leap y = (y mod 4 = 0 \<and> (y mod 100 \<noteq> 0 \<or> y mod 400 = 0))"

definition days_in_month :: "int \<Rightarrow> int \<Rightarrow> int" where
  "days_in_month y m =
     (if m = 2 then (if is_leap y then 29 else 28)
      else if m = 4 \<or> m = 6 \<or> m = 9 \<or> m = 11 then 30 else 31)"

definition py_date :: "int \<Rightarrow> int \<Rightarrow> int \<Rightarrow> date option" where
  "py_date y m d =
     (if MINYEAR \<le> y \<and> y \<le> MAXYEAR \<and> 1 \<le> m \<and> m \<le> 12 \<and> 1 \<le> d \<and> d \<le> days_in_month y m
      then Some \<lparr>year = y, month = m, day = d\<rparr> else None)"

definition valid_date :: "date \<Rightarrow> bool" where
  "valid_date t = (py_date (year t) (month t) (day t) = Some t)"

text \<open>
  \<open>get_monthly_payroll_period\<close> returns \<open>(None, None)\<close> when either date cannot be
  built; the model returns \<open>None\<close> then, and \<open>Some (start_date, end_date)\<close> otherwise.
\<close>

definition get_monthly_payroll_period :: "int \<Rightarrow> int \<Rightarrow> (date \<times> date) option" where
  "get_monthly_payroll_period yr mo =
     (case py_date yr mo 11 of
        None \<Rightarrow> None
      | Some start_date \<Rightarrow>
          (let (next_month, next_year) = (if mo = 12 then (1, yr + 1) else (mo + 1, yr))
           in case py_date next_year next_month 10 of
                None \<Rightarrow> None
              | Some end_date \<Rightarrow> Some (start_date, end_date)))"

text \<open>
  \<open>get_default_payroll_period\<close> reads the clock; the model takes \<open>today\<close> as its
  argument. The two arms of \<open>if today.day <= 10\<close> are kept apart as the source writes
  them.
\<close>

definition default_target_on_or_before_10th :: "date \<Rightarrow> int \<times> int" where
  "default_target_on_or_before_10th today =
     (if month today = 1 then (year today - 1, 12) else (year today, month today - 1))"

definition default_target_after_10th :: "date \<Rightarrow> int \<times> int" where
  "default_target_after_10th today =
     (if month today = 1 then (year today - 1, 12) else (year today, month today - 1))"

definition get_default_payroll_period :: "date \<Rightarrow> (date \<times> date) option" where
  "get_default_payroll_period today =
     (let (target_year, target_month) =
            (if day today \<le> 10 then default_target_on_or_before_10th today
             else default_target_after_10th today)
      in get_monthly_payroll_period target_year target_month)"

section \<open>Fixed contracted hours\<close>

definition calculate_fixed_hours :: "(rat \<Rightarrow> bool) \<Rightarrow> rat \<Rightarrow> int \<Rightarrow> rat" where
  "calculate_fixed_hours tie weekly_hours period_days =
     (if weekly_hours \<le> 0 \<or> period_days \<le> 0 then 0
      else
        (let full_weeks = period_days div 7;
             remainder_days = period_days mod 7;
             full_weeks_total = of_int full_weeks * weekly_hours;
             proportional_remainder = (of_int remainder_days / 7) * weekly_hours;
             fixed_hours = full_weeks_total + proportional_remainder
         in py_round tie fixed_hours 2))"

section \<open>Python truthiness and dictionaries\<close>

text \<open>
  \<open>not x\<close> on an optional integer holds for \<open>None\<close> and for 0. A Python
  dictionary is an association list: \<open>map_of\<close> reads it, \<open>AList.update\<close> writes a key
  in place or appends a new one, as a \<open>dict\<close> keeps insertion order.
\<close>

definition py_truthy :: "int option \<Rightarrow> bool" where
  "py_truthy x = (case x of None \<Rightarrow> False | Some v \<Rightarrow> v \<noteq> 0)"

section \<open>On-call hours from attendance\<close>

record on_call_shift =
  shift_id :: "int option"
  start_time :: int
  end_time :: int
  minutes_break :: int

record attendance =
  shift :: "int option"
  in_time :: "int option"
  out_time :: "int option"
  deleted :: bool

text \<open>
  \<open>unix_to_datetime\<close> returns \<open>None\<close> for a missing or zero timestamp and when the
  library conversion raises. The conversion \<open>datetime.fromtimestamp\<close> followed by
  \<open>astimezone\<close> is the parameter \<open>fromtimestamp\<close>, \<open>None\<close> standing for an exception.
\<close>

definition unix_to_datetime :: "(int \<Rightarrow> 'dt option) \<Rightarrow> int option \<Rightarrow> 'dt option" where
  "unix_to_datetime fromtimestamp unix_ts =
     (if \<not> py_truthy unix_ts then None
      else case unix_ts of None \<Rightarrow> None | Some t \<Rightarrow> fromtimestamp t)"

text \<open>The calls of \<open>st.warning\<close> are collected in a list, each with the shift id it names.\<close>

datatype on_call_warning =
    CouldNotConvert "int option"
  | InvalidOnCallHours "int option" rat
  | SuspiciouslyLong "int option" rat

fun build_shift_lookup ::
  "on_call_shift list \<Rightarrow> (int \<times> int \<times> int \<times> int) list \<Rightarrow> (int \<times> int \<times> int \<times> int) list" where
  "build_shift_lookup [] shift_lookup = shift_lookup"
| "build_shift_lookup (s # rest) shift_lookup =
     (case shift_id s of
        None \<Rightarrow> build_shift_lookup rest shift_lookup
      | Some i \<Rightarrow>
          if i = 0 then build_shift_lookup rest shift_lookup
          else build_shift_lookup rest
                 (AList.update i (start_time s, end_time s, minutes_break s) shift_lookup))"

text \<open>One pass of the loop over the attendance records; every \<open>continue\<close> returns the
  accumulator unchanged.\<close>

definition on_call_attendance_step ::
  "(int \<Rightarrow> 'dt option) \<Rightarrow> (int \<times> int \<times> int \<times> int) list \<Rightarrow> attendance
     \<Rightarrow> rat \<times> on_call_warning list \<Rightarrow> rat \<times> on_call_warning list" where
  "on_call_attendance_step fromtimestamp shift_lookup a acc =
     (let (total_on_call_hours, warnings) = acc in
      if deleted a then acc
      else
        (case shift a of
           None \<Rightarrow> acc
         | Some sid \<Rightarrow>
             if map_of shift_lookup sid = None then acc
             else if \<not> py_truthy (in_time a) \<or> \<not> py_truthy (out_time a) then acc
             else
               (case (unix_to_datetime fromtimestamp (in_time a),
                      unix_to_datetime fromtimestamp (out_time a)) of
                  (Some in_time_dt, Some out_time_dt) \<Rightarrow>
                    (let hours_worked = of_int (the (out_time a) - the (in_time a)) / 3600 in
                     if hours_worked \<le> 0
                     then (total_on_call_hours, warnings @ [InvalidOnCallHours (shift a) hours_worked])
                     else (total_on_call_hours + hours_worked,
                           if 12 < hours_worked
                           then warnings @ [SuspiciouslyLong (shift a) hours_worked]
                           else warnings))
                | _ \<Rightarrow> (total_on_call_hours, warnings @ [CouldNotConvert (shift a)]))))"

fun on_call_attendance_loop ::
  "(int \<Rightarrow> 'dt option) \<Rightarrow> (int \<times> int \<times> int \<times> int) list \<Rightarrow> attendance list
     \<Rightarrow> rat \<times> on_call_warning list \<Rightarrow> rat \<times> on_call_warning list" where
  "on_call_attendance_loop fromtimestamp shift_lookup [] acc = acc"
| "on_call_attendance_loop fromtimestamp shift_lookup (a # rest) acc =
     on_call_attendance_loop fromtimestamp shift_lookup rest
       (on_call_attendance_step fromtimestamp shift_lookup a acc)"

text \<open>
  \<open>calculate_on_call_hours\<close> returns the worked hours and the number of assigned
  shifts; the model adds the warnings raised. \<open>attendance_data\<close> is \<open>None\<close> when the
  fetch failed.
\<close>

definition calculate_on_call_hours ::
  "(rat \<Rightarrow> bool) \<Rightarrow> (int \<Rightarrow> 'dt option) \<Rightarrow> on_call_shift list \<Rightarrow> attendance list option
     \<Rightarrow> rat \<times> int \<times> on_call_warning list" where
  "calculate_on_call_hours tie fromtimestamp on_call_shifts attendance_data =
     (if on_call_shifts = [] then (0, 0, [])
      else
        (let total_on_call_shifts = int (length on_call_shifts) in
         case attendance_data of
           None \<Rightarrow> (0, total_on_call_shifts, [])
         | Some [] \<Rightarrow> (0, total_on_call_shifts, [])
         | Some records \<Rightarrow>
             (let shift_lookup = build_shift_lookup on_call_shifts [];
                  (total_on_call_hours, warnings) =
                     on_call_attendance_loop fromtimestamp shift_lookup records (0, [])
              in (py_round tie total_on_call_hours 2, total_on_call_shifts, warnings))))"

text \<open>
  The worked hours as the specification words them: the rounded sum of
  \<open>(out_time - in_time) / 3600\<close> over the attendance records that are not deleted,
  whose shift id is the id of a stub, that have both times present and a strictly
  positive duration.
\<close>

definition spec_on_call_accepted :: "on_call_shift list \<Rightarrow> attendance \<Rightarrow> bool" where
  "spec_on_call_accepted stubs a =
     (\<not> deleted a \<and> shift a \<in> set (map shift_id stubs) \<and>
      in_time a \<noteq> None \<and> out_time a \<noteq> None \<and>
      0 < the (out_time a) - the (in_time a))"

definition spec_on_call_worked_hours ::
  "(rat \<Rightarrow> bool) \<Rightarrow> on_call_shift list \<Rightarrow> attendance list \<Rightarrow> rat" where
  "spec_on_call_worked_hours tie stubs records =
     py_round tie (sum_list (map (\<lambda>a. of_int (the (out_time a) - the (in_time a)) / 3600)
                          (filter (spec_on_call_accepted stubs) records))) 2"

text \<open>
  The path condition of the loop body: the attendance records for which the step
  reaches \<open>total_on_call_hours += hours_worked\<close>, given the lookup built from the stubs.
\<close>

definition attendance_counted ::
  "(int \<Rightarrow> 'dt option) \<Rightarrow> (int \<times> int \<times> int \<times> int) list \<Rightarrow> attendance \<Rightarrow> bool" where
  "attendance_counted fromtimestamp shift_lookup a =
     (\<not> deleted a \<and> shift a \<noteq> None \<and> map_of shift_lookup (the (shift a)) \<noteq> None \<and>
      py_truthy (in_time a) \<and> py_truthy (out_time a) \<and>
      fromtimestamp (the (in_time a)) \<noteq> None \<and> fromtimestamp (the (out_time a)) \<noteq> None \<and>
      0 < the (out_time a) - the (in_time a))"

section \<open>Shift hours by role\<close>

text \<open>
  A shift record of the scheduling API; a missing key or a JSON \<open>null\<close> is \<open>None\<close>.
\<close>

record raw_shift =
  raw_id :: "int option"
  raw_start_time :: "int option"
  raw_end_time :: "int option"
  raw_minutes_break :: "int option"
  raw_role :: "int option"

text \<open>
  \<open>get_role_name\<close> asks the roles endpoint. The answer of the endpoint for a role id,
  with the fallback \<open>Role <id>\<close> the function substitutes on a failure, is the parameter
  \<open>roles_api\<close>.
\<close>

definition get_role_name :: "(int \<Rightarrow> string) \<Rightarrow> int option \<Rightarrow> string" where
  "get_role_name roles_api role_id =
     (case role_id of None \<Rightarrow> ''Unknown Role'' | Some r \<Rightarrow> roles_api r)"

text \<open>The dictionary built by \<open>get_user_pay_details\<close>.\<close>

record pay_details =
  pd_pay_type :: "string option"
  pd_hourly_rate :: rat
  pd_annual_salary :: rat
  pd_role_rates :: "(int \<times> rat) list"
  pd_standard_weekly_hours :: rat

record role_seconds =
  seconds :: int
  seconds_rate :: rat
  seconds_name :: string

record role_hours_entry =
  hours :: rat
  rate :: rat
  name :: string

text \<open>
  The variables the loop of \<open>calculate_shift_hours_by_role\<close> updates, with the two
  dictionaries it shares with its caller: \<open>all_custom_roles\<close> and the cache
  \<open>role_id_to_name\<close>.
\<close>

record classify_state =
  total_seconds :: int
  base_rate_seconds :: int
  role_hours :: "(int \<times> role_seconds) list"
  on_call_shifts :: "on_call_shift list"
  all_custom_roles :: "(int \<times> string) list"
  role_id_to_name :: "(int option \<times> string) list"

definition classify_shift ::
  "(int \<Rightarrow> string) \<Rightarrow> (int \<times> rat) list \<Rightarrow> classify_state \<Rightarrow> raw_shift \<Rightarrow> classify_state" where
  "classify_shift roles_api role_rates st sh =
     (let st_unix = raw_start_time sh;
          en_unix = raw_end_time sh;
          minutes_break' = (case raw_minutes_break sh of None \<Rightarrow> 0 | Some b \<Rightarrow> b);
          role_id = raw_role sh;
          shift_id' = raw_id sh;
          cache = (case map_of (role_id_to_name st) role_id of
                     None \<Rightarrow> AList.update role_id (get_role_name roles_api role_id) (role_id_to_name st)
                   | Some _ \<Rightarrow> role_id_to_name st);
          role_name = (case map_of cache role_id of None \<Rightarrow> ''Unknown'' | Some n \<Rightarrow> n);
          st1 = st\<lparr>role_id_to_name := cache\<rparr>
      in if st_unix = None \<or> en_unix = None then st1
         else if role_name = ON_CALL_ROLE_NAME
         then st1\<lparr>on_call_shifts := on_call_shifts st1 @
                    [\<lparr>shift_id = shift_id', start_time = the st_unix, end_time = the en_unix,
                      minutes_break = minutes_break'\<rparr>]\<rparr>
         else
           (let duration = the en_unix - the st_unix;
                net_seconds = duration - minutes_break' * 60;
                st2 = st1\<lparr>total_seconds := total_seconds st1 + net_seconds\<rparr>
            in if py_truthy role_id \<and> map_of role_rates (the role_id) \<noteq> None
               then
                 (let rid = the role_id;
                      custom_rate = the (map_of role_rates rid);
                      st3 = (case map_of (role_hours st2) rid of
                               None \<Rightarrow>
                                 (let role_name' = get_role_name roles_api role_id
                                  in st2\<lparr>role_hours := AList.update rid
                                            \<lparr>seconds = 0, seconds_rate = custom_rate,
                                             seconds_name = role_name'\<rparr> (role_hours st2),
                                          all_custom_roles :=
                                            AList.update rid role_name' (all_custom_roles st2)\<rparr>)
                             | Some _ \<Rightarrow> st2);
                      bucket = the (map_of (role_hours st3) rid)
                  in st3\<lparr>role_hours := AList.update rid
                            (bucket\<lparr>seconds := seconds bucket + net_seconds\<rparr>) (role_hours st3)\<rparr>)
               else st2\<lparr>base_rate_seconds := base_rate_seconds st2 + net_seconds\<rparr>))"

fun classify_shifts ::
  "(int \<Rightarrow> string) \<Rightarrow> (int \<times> rat) list \<Rightarrow> raw_shift list \<Rightarrow> classify_state \<Rightarrow> classify_state" where
  "classify_shifts roles_api role_rates [] st = st"
| "classify_shifts roles_api role_rates (sh # rest) st =
     classify_shifts roles_api role_rates rest (classify_shift roles_api role_rates st sh)"

text \<open>
  \<open>calculate_shift_hours_by_role\<close> returns the tuple \<open>(total_hours, base_rate_hours,
  role_hours_converted, on_call_shifts)\<close>; the model pairs it with the two shared
  dictionaries as the call leaves them. \<open>shifts_json\<close> is \<open>None\<close> when the fetch
  failed. The parameter \<open>default_hourly_rate\<close> of the source is never read and is left
  out.
\<close>

definition calculate_shift_hours_by_role ::
  "(rat \<Rightarrow> bool) \<Rightarrow> (int \<Rightarrow> string) \<Rightarrow> raw_shift list option \<Rightarrow> pay_details
     \<Rightarrow> (int \<times> string) list \<Rightarrow> (int option \<times> string) list
     \<Rightarrow> (rat \<times> rat \<times> (int \<times> role_hours_entry) list \<times> on_call_shift list)
         \<times> (int \<times> string) list \<times> (int option \<times> string) list" where
  "calculate_shift_hours_by_role tie roles_api shifts_json user_pay_details custom_roles cache =
     (case shifts_json of
        None \<Rightarrow> ((0, 0, [], []), custom_roles, cache)
      | Some [] \<Rightarrow> ((0, 0, [], []), custom_roles, cache)
      | Some shifts \<Rightarrow>
          (let st = classify_shifts roles_api (pd_role_rates user_pay_details) shifts
                      \<lparr>total_seconds = 0, base_rate_seconds = 0, role_hours = [],
                       on_call_shifts = [], all_custom_roles = custom_roles,
                       role_id_to_name = cache\<rparr>;
               total_hours' = py_round tie (of_int (total_seconds st) / 3600) 2;
               base_rate_hours' = py_round tie (of_int (base_rate_seconds st) / 3600) 2;
               role_hours_converted =
                 map (\<lambda>(role_id, data).
                        (role_id, \<lparr>hours = py_round tie (of_int (seconds data) / 3600) 2,
                                   rate = seconds_rate data, name = seconds_name data\<rparr>))
                     (role_hours st)
           in ((total_hours', base_rate_hours', role_hours_converted, on_call_shifts st),
               all_custom_roles st, role_id_to_name st)))"

section \<open>Pay details and leave\<close>

text \<open>
  A user record of the scheduling API. The keys of \<open>role_rates\<close> are taken after
  \<open>int(role_id_str)\<close>; an entry whose key does not convert is dropped by the source
  and is not in the list. A rate without \<open>per_hour\<close> is \<open>None\<close>.
\<close>

record user_data =
  u_id :: "int option"
  u_first_name :: string
  u_last_name :: string
  u_salary_type :: "string option"
  u_salary :: "rat option"
  u_weekly_hours :: "rat option"
  u_role_rates :: "(int \<times> rat option) list"

definition get_user_pay_details :: "user_data \<Rightarrow> pay_details" where
  "get_user_pay_details u =
     \<lparr>pd_pay_type = u_salary_type u,
      pd_hourly_rate =
        (if u_salary_type u = Some ''hourly'' \<and> u_salary u \<noteq> None then the (u_salary u) else 0),
      pd_annual_salary =
        (if u_salary_type u = Some ''annual'' \<and> u_salary u \<noteq> None then the (u_salary u) else 0),
      pd_role_rates =
        fold (\<lambda>(role_id_int, per_hour_rate) acc.
                case per_hour_rate of None \<Rightarrow> acc
                | Some r \<Rightarrow> AList.update role_id_int r acc)
             (u_role_rates u) [],
      pd_standard_weekly_hours = (case u_weekly_hours u of None \<Rightarrow> 0 | Some w \<Rightarrow> w)\<rparr>"

text \<open>
  A leave record. \<open>entry_date\<close> is the result of \<open>date_str_to_date\<close> on the entry's
  date string: \<open>None\<close> when the string is missing or does not parse.
\<close>

record leave_date_entry =
  entry_date :: "date option"
  entry_days :: "rat option"
  entry_hours :: "rat option"

record leave_record =
  leave_status :: "string option"
  leave_type :: "int option"
  leave_dates :: "leave_date_entry list"

definition date_le :: "date \<Rightarrow> date \<Rightarrow> bool" where
  "date_le a b =
     (year a < year b \<or>
      (year a = year b \<and> (month a < month b \<or> (month a = month b \<and> day a \<le> day b))))"

fun leave_dates_loop ::
  "date \<Rightarrow> date \<Rightarrow> int option \<Rightarrow> leave_date_entry list \<Rightarrow> rat \<times> rat \<times> rat \<Rightarrow> rat \<times> rat \<times> rat" where
  "leave_dates_loop report_start_date report_end_date ltype [] acc = acc"
| "leave_dates_loop report_start_date report_end_date ltype (date_entry # rest) acc =
     leave_dates_loop report_start_date report_end_date ltype rest
       (let (hol_days, hol_hours, sick_days) = acc in
        case entry_date date_entry of
          None \<Rightarrow> acc
        | Some ddate \<Rightarrow>
            if date_le report_start_date ddate \<and> date_le ddate report_end_date
            then
              (let days_val = (case entry_days date_entry of None \<Rightarrow> 0 | Some v \<Rightarrow> v);
                   hours_val = (case entry_hours date_entry of None \<Rightarrow> 0 | Some v \<Rightarrow> v)
               in if ltype = Some 1 then (hol_days + days_val, hol_hours + hours_val, sick_days)
                  else if ltype = Some 3 then (hol_days, hol_hours, sick_days + days_val)
                  else acc)
            else acc)"

fun leave_records_loop ::
  "date \<Rightarrow> date \<Rightarrow> leave_record list \<Rightarrow> rat \<times> rat \<times> rat \<Rightarrow> rat \<times> rat \<times> rat" where
  "leave_records_loop report_start_date report_end_date [] acc = acc"
| "leave_records_loop report_start_date report_end_date (r # rest) acc =
     leave_records_loop report_start_date report_end_date rest
       (if leave_status r \<noteq> Some ''approved'' then acc
        else leave_dates_loop report_start_date report_end_date (leave_type r) (leave_dates r) acc)"

definition calculate_leave_hours ::
  "(rat \<Rightarrow> bool) \<Rightarrow> leave_record list option \<Rightarrow> date \<Rightarrow> date \<Rightarrow> rat \<times> rat \<times> rat" where
  "calculate_leave_hours tie leave_json report_start_date report_end_date =
     (case leave_json of
        None \<Rightarrow> (0, 0, 0)
      | Some [] \<Rightarrow> (0, 0, 0)
      | Some records \<Rightarrow>
          (let (hol_days, hol_hours, sick_days) =
                 leave_records_loop report_start_date report_end_date records (0, 0, 0)
           in (py_round tie hol_days 2, py_round tie hol_hours 2, py_round tie sick_days 2)))"

section \<open>One employee of the report\<close>

text \<open>
  A character of a name is a code point below 256. \<open>str.strip()\<close> removes the
  characters for which \<open>str.isspace\<close> holds; below 256 these are the ten of ASCII,
  the next-line character \<open>0x85\<close> and the no-break space \<open>0xA0\<close>.
\<close>

definition py_isspace :: "char \<Rightarrow> bool" where
  "py_isspace c = (c \<in> set [CHR '' '', CHR 0x09, CHR 0x0A, CHR 0x0B, CHR 0x0C, CHR 0x0D,
                            CHR 0x1C, CHR 0x1D, CHR 0x1E, CHR 0x1F, CHR 0x85, CHR 0xA0])"

definition py_strip :: "string \<Rightarrow> string" where
  "py_strip s = rev (dropWhile py_isspace (rev (dropWhile py_isspace s)))"

text \<open>The dictionary appended to \<open>payroll_data\<close> for an employee.\<close>

record payroll_record =
  employee_name :: string
  pay_type :: "string option"
  annual_salary :: rat
  hourly_rate :: rat
  weekly_hours :: rat
  total_hours :: rat
  total_hours_display :: rat
  fixed_hours :: rat
  rate_1 :: rat
  base_rate_hours :: rat
  custom_role_hours :: "(int \<times> role_hours_entry) list"
  on_call_hours :: rat
  on_call_shift_count :: int
  holiday_days :: rat
  holiday_hours :: rat
  sickness_days :: rat

text \<open>
  The body of the loop over the users, up to the test that decides whether the
  employee is appended. The answers of the three fetches for this user
  (\<open>shifts_json\<close>, \<open>attendance_data\<close>, \<open>leave_json\<close>) are arguments; the period and its
  number of days are computed before the loop. \<open>user_totals\<close> is the dictionary the
  source would append and the two shared dictionaries as the iteration leaves them.
\<close>

definition user_totals ::
  "(rat \<Rightarrow> bool) \<Rightarrow> (int \<Rightarrow> string) \<Rightarrow> (int \<Rightarrow> 'dt option) \<Rightarrow> date \<Rightarrow> date \<Rightarrow> int \<Rightarrow> user_data
     \<Rightarrow> raw_shift list option \<Rightarrow> attendance list option \<Rightarrow> leave_record list option
     \<Rightarrow> (int \<times> string) list \<Rightarrow> (int option \<times> string) list
     \<Rightarrow> payroll_record \<times> (int \<times> string) list \<times> (int option \<times> string) list" where
  "user_totals tie roles_api fromtimestamp start_date end_date period_days user
       shifts_json attendance_data leave_json custom_roles cache =
     (let name' = py_strip (u_first_name user @ '' '' @ u_last_name user);
          pay = get_user_pay_details user;
          ptype = pd_pay_type pay;
          rate = (if ptype = Some ''hourly'' then pd_hourly_rate pay
                  else if ptype = Some ''annual'' \<and> 0 < pd_standard_weekly_hours pay
                  then (pd_annual_salary pay / 52) / pd_standard_weekly_hours pay
                  else 0);
          weekly = pd_standard_weekly_hours pay;
          fixed = calculate_fixed_hours tie weekly period_days;
          ((total, base, custom, on_call), custom_roles1, cache1) =
             calculate_shift_hours_by_role tie roles_api shifts_json pay custom_roles cache;
          custom_roles2 =
             fold (\<lambda>(role_id, role_data) acc.
                     if map_of acc role_id = None then AList.update role_id (name role_data) acc
                     else acc)
                  custom custom_roles1;
          (oc_hours, oc_count, warnings) =
             (if on_call \<noteq> [] then calculate_on_call_hours tie fromtimestamp on_call attendance_data
              else (0, 0, []));
          (hol_days, hol_hours, sick_days) = calculate_leave_hours tie leave_json start_date end_date
      in (\<lparr>employee_name = name',
            pay_type = ptype,
            annual_salary = pd_annual_salary pay,
            hourly_rate = pd_hourly_rate pay,
            weekly_hours = pd_standard_weekly_hours pay,
            total_hours = total,
            total_hours_display = total + oc_hours,
            fixed_hours = fixed,
            rate_1 = py_round tie rate 2,
            base_rate_hours = base,
            custom_role_hours = custom,
            on_call_hours = oc_hours,
            on_call_shift_count = oc_count,
            holiday_days = hol_days,
            holiday_hours = hol_hours,
            sickness_days = sick_days\<rparr>,
          custom_roles2, cache1))"

text \<open>
  The test \<open>if total_hours > 0 or holiday_hours > 0 or holiday_days > 0 or sickness_days
  > 0 or on_call_hours > 0\<close>: the employee's dictionary is appended to \<open>payroll_data\<close>
  when it holds (\<open>Some\<close>) and the employee is left out otherwise (\<open>None\<close>).
\<close>

definition process_user ::
  "(rat \<Rightarrow> bool) \<Rightarrow> (int \<Rightarrow> string) \<Rightarrow> (int \<Rightarrow> 'dt option) \<Rightarrow> date \<Rightarrow> date \<Rightarrow> int \<Rightarrow> user_data
     \<Rightarrow> raw_shift list option \<Rightarrow> attendance list option \<Rightarrow> leave_record list option
     \<Rightarrow> (int \<times> string) list \<Rightarrow> (int option \<times> string) list
     \<Rightarrow> payroll_record option" where
  "process_user tie roles_api fromtimestamp start_date end_date period_days user
       shifts_json attendance_data leave_json custom_roles cache =
     (let data = fst (user_totals tie roles_api fromtimestamp start_date end_date period_days user
                        shifts_json attendance_data leave_json custom_roles cache)
      in if 0 < total_hours data \<or> 0 < holiday_hours data \<or> 0 < holiday_days data
            \<or> 0 < sickness_days data \<or> 0 < on_call_hours data
         then Some data else None)"

section \<open>The pay of one row\<close>

text \<open>
  The preview table: \<open>hours_worked\<close>, \<open>overtime_hrs\<close> and \<open>total_pay\<close> of the loop over
  \<open>payroll_data\<close>; the column shown is \<open>round(total_pay, 2)\<close>.
\<close>

definition preview_hours_worked :: "payroll_record \<Rightarrow> rat" where
  "preview_hours_worked data = min (total_hours data) (fixed_hours data - on_call_hours data)"

definition preview_overtime_hrs :: "payroll_record \<Rightarrow> rat" where
  "preview_overtime_hrs data = max 0 (total_hours_display data - fixed_hours data)"

definition preview_total_pay :: "rat \<Rightarrow> payroll_record \<Rightarrow> rat" where
  "preview_total_pay overtime_rate data =
     (if pay_type data = Some ''annual'' then annual_salary data / 12
      else
        (let custom_role_pay = sum_list (map (\<lambda>(role_id, rd). hours rd * rate rd)
                                            (custom_role_hours data));
             base_pay = preview_hours_worked data * rate_1 data;
             on_call_hours_pay = on_call_hours data * rate_1 data;
             on_call_shifts_pay = of_int (on_call_shift_count data) * ON_CALL_FLAT_RATE;
             overtime_pay = preview_overtime_hrs data * overtime_rate;
             holiday_pay = holiday_hours data * rate_1 data
         in base_pay + custom_role_pay + on_call_hours_pay + on_call_shifts_pay
            + overtime_pay + holiday_pay))"

definition preview_total_pay_shown :: "(rat \<Rightarrow> bool) \<Rightarrow> rat \<Rightarrow> payroll_record \<Rightarrow> rat" where
  "preview_total_pay_shown tie overtime_rate data =
     py_round tie (preview_total_pay overtime_rate data) 2"

text \<open>
  The spreadsheet row of \<open>create_payroll_excel\<close>: the values of the formulas it writes
  into the cells Hours (\<open>MIN(D - L, E - L)\<close>), Overtime Hrs (\<open>MAX(0, D - E)\<close>) and TOTAL
  PAY, computed from the cells of the same row. \<open>sorted_roles\<close> is the list of custom
  roles of the whole run, one pair of columns each; an employee without the role has 0
  hours at rate 0 there.
\<close>

definition excel_hours :: "payroll_record \<Rightarrow> rat" where
  "excel_hours data =
     min (total_hours_display data - on_call_hours data) (fixed_hours data - on_call_hours data)"

definition excel_overtime_hrs :: "payroll_record \<Rightarrow> rat" where
  "excel_overtime_hrs data = max 0 (total_hours_display data - fixed_hours data)"

definition excel_total_pay :: "rat \<Rightarrow> (int \<times> string) list \<Rightarrow> payroll_record \<Rightarrow> rat" where
  "excel_total_pay overtime_rate sorted_roles data =
     (if pay_type data = Some ''annual'' then annual_salary data / 12
      else
        excel_hours data * rate_1 data
        + sum_list (map (\<lambda>(role_id, role_name).
                           case map_of (custom_role_hours data) role_id of
                             None \<Rightarrow> 0 * 0
                           | Some role_data \<Rightarrow> hours role_data * rate role_data)
                        sorted_roles)
        + on_call_hours data * rate_1 data
        + of_int (on_call_shift_count data) * ON_CALL_FLAT_RATE
        + excel_overtime_hrs data * overtime_rate
        + holiday_hours data * rate_1 data)"

section \<open>Where the classifier sends a shift\<close>

text \<open>
  The path conditions of the loop body of \<open>calculate_shift_hours_by_role\<close>, read off
  its branches. The name a shift resolves to is the cached name of its role, or the
  answer of \<open>get_role_name\<close> when the cache has none. A shift is skipped unless both
  timestamps are present; it is appended to \<open>on_call_shifts\<close> when the name is
  \<open>On-Call\<close>; otherwise its net seconds go to the bucket of its role when the role id is
  truthy and has a rate in \<open>role_rates\<close>, and to \<open>base_rate_seconds\<close> when not.
\<close>

definition shift_present :: "raw_shift \<Rightarrow> bool" where
  "shift_present sh = (raw_start_time sh \<noteq> None \<and> raw_end_time sh \<noteq> None)"

definition resolved_role_name ::
  "(int \<Rightarrow> string) \<Rightarrow> (int option \<times> string) list \<Rightarrow> raw_shift \<Rightarrow> string" where
  "resolved_role_name roles_api cache sh =
     (case map_of cache (raw_role sh) of
        None \<Rightarrow> get_role_name roles_api (raw_role sh)
      | Some n \<Rightarrow> n)"

definition has_custom_rate :: "(int \<times> rat) list \<Rightarrow> raw_shift \<Rightarrow> bool" where
  "has_custom_rate role_rates sh =
     (py_truthy (raw_role sh) \<and> map_of role_rates (the (raw_role sh)) \<noteq> None)"

definition routed_on_call ::
  "(int \<Rightarrow> string) \<Rightarrow> (int option \<times> string) list \<Rightarrow> raw_shift \<Rightarrow> bool" where
  "routed_on_call roles_api cache sh =
     (shift_present sh \<and> resolved_role_name roles_api cache sh = ON_CALL_ROLE_NAME)"

definition routed_custom ::
  "(int \<Rightarrow> string) \<Rightarrow> (int option \<times> string) list \<Rightarrow> (int \<times> rat) list \<Rightarrow> int \<Rightarrow> raw_shift \<Rightarrow> bool" where
  "routed_custom roles_api cache role_rates r sh =
     (shift_present sh \<and> resolved_role_name roles_api cache sh \<noteq> ON_CALL_ROLE_NAME \<and>
      has_custom_rate role_rates sh \<and> raw_role sh = Some r)"

definition routed_base ::
  "(int \<Rightarrow> string) \<Rightarrow> (int option \<times> string) list \<Rightarrow> (int \<times> rat) list \<Rightarrow> raw_shift \<Rightarrow> bool" where
  "routed_base roles_api cache role_rates sh =
     (shift_present sh \<and> resolved_role_name roles_api cache sh \<noteq> ON_CALL_ROLE_NAME \<and>
      \<not> has_custom_rate role_rates sh)"

definition shift_net_seconds :: "raw_shift \<Rightarrow> int" where
  "shift_net_seconds sh =
     the (raw_end_time sh) - the (raw_start_time sh)
     - (case raw_minutes_break sh of None \<Rightarrow> 0 | Some b \<Rightarrow> b) * 60"

definition on_call_stub :: "raw_shift \<Rightarrow> on_call_shift" where
  "on_call_stub sh =
     \<lparr>shift_id = raw_id sh, start_time = the (raw_start_time sh),
      end_time = the (raw_end_time sh),
      minutes_break = (case raw_minutes_break sh of None \<Rightarrow> 0 | Some b \<Rightarrow> b)\<rparr>"

section \<open>Rounding\<close>

lemma round_nearest_close: "\<bar>of_int (round_nearest up q) - q\<bar> \<le> 1 / 2"
proof -
  have "of_int \<lfloor>q\<rfloor> \<le> q" "q < of_int \<lfloor>q\<rfloor> + 1" by linarith+
  then show ?thesis
    by (auto simp: round_nearest_def Let_def)
qed

lemma round_nearest_nonneg: "0 \<le> q \<Longrightarrow> 0 \<le> round_nearest up q"
proof -
  assume "0 \<le> q"
  then have "0 \<le> \<lfloor>q\<rfloor>" by simp
  then show ?thesis by (simp add: round_nearest_def Let_def)
qed

lemma round_nearest_unique:
  assumes "of_int k - 1 / 2 < q" and "q < of_int k + 1 / 2"
  shows "round_nearest up q = k"
proof (cases "of_int k \<le> q")
  case True
  then have "\<lfloor>q\<rfloor> = k" using assms(2) by (simp add: floor_unique)
  then show ?thesis using assms(2) by (simp add: round_nearest_def Let_def)
next
  case False
  then have "\<lfloor>q\<rfloor> = k - 1" using assms(1) by (simp add: floor_unique)
  then show ?thesis using assms(1) by (simp add: round_nearest_def Let_def)
qed

lemma py_round_2_close: "\<bar>py_round tie x 2 - x\<bar> \<le> 1 / 200"
proof -
  have "\<bar>of_int (round_nearest (tie x) (x * 100)) - x * 100\<bar> \<le> 1 / 2"
    by (rule round_nearest_close)
  then show ?thesis
    by (simp add: py_round_def field_simps abs_le_iff)
qed

lemma py_round_2_grid: "\<exists>k::int. py_round tie x 2 = of_int k / 100"
  by (auto simp: py_round_def)

lemma py_round_2_unique:
  assumes "of_int k - 1 / 2 < x * 100" and "x * 100 < of_int k + 1 / 2"
  shows "py_round tie x 2 = of_int k / 100"
  using round_nearest_unique [OF assms, of "tie x"] by (simp add: py_round_def)

lemma py_round_0 [simp]: "py_round tie 0 n = 0"
  by (simp add: py_round_def round_nearest_def)

lemma py_round_nonneg: "0 \<le> x \<Longrightarrow> 0 \<le> py_round tie x n"
  by (simp add: py_round_def round_nearest_nonneg)

section \<open>Fixed contracted hours (C8)\<close>

lemma calculate_fixed_hours_40_28: "calculate_fixed_hours tie 40 28 = 160"
proof -
  have "py_round tie 160 2 = of_int 16000 / 100"
    by (rule py_round_2_unique) simp_all
  then show ?thesis by (simp add: calculate_fixed_hours_def Let_def)
qed

text \<open>
  Claim C8. \<open>calculate_fixed_hours\<close> returns 0 when the weekly hours or the number of
  days is not positive. Otherwise it returns
  \<open>(period_days // 7) * weekly_hours + ((period_days % 7) / 7) * weekly_hours\<close> rounded
  to two decimals: the result of \<open>round\<close> on that sum, a whole number of hundredths
  within half a hundredth of it, whichever way \<open>round\<close> takes a sum that lies
  exactly between two hundredths. For 37.5 weekly hours and 31 days it is
  \<open>4 * 37.5 + (3/7) * 37.5\<close> rounded, which is 166.07.
\<close>

theorem calculate_fixed_hours_rounded:
  "(w \<le> 0 \<or> n \<le> 0 \<longrightarrow> calculate_fixed_hours tie w n = 0) \<and>
   (0 < w \<and> 0 < n \<longrightarrow>
      calculate_fixed_hours tie w n =
        py_round tie (of_int (n div 7) * w + (of_int (n mod 7) / 7) * w) 2 \<and>
      (\<exists>k::int. calculate_fixed_hours tie w n = of_int k / 100) \<and>
      \<bar>calculate_fixed_hours tie w n
         - (of_int (n div 7) * w + (of_int (n mod 7) / 7) * w)\<bar> \<le> 1 / 200) \<and>
   calculate_fixed_hours tie (75 / 2) 31 = py_round tie (4 * (75 / 2) + (3 / 7) * (75 / 2)) 2 \<and>
   calculate_fixed_hours tie (75 / 2) 31 = 16607 / 100"
proof (intro conjI impI)
  show v: "calculate_fixed_hours tie (75 / 2) 31 = py_round tie (4 * (75 / 2) + (3 / 7) * (75 / 2)) 2"
    by (simp add: calculate_fixed_hours_def Let_def)
  have "py_round tie (4 * (75 / 2) + (3 / 7) * (75 / 2)) 2 = of_int 16607 / 100"
    by (rule py_round_2_unique) simp_all
  then show "calculate_fixed_hours tie (75 / 2) 31 = 16607 / 100"
    unfolding v by simp
next
  assume "w \<le> 0 \<or> n \<le> 0"
  then show "calculate_fixed_hours tie w n = 0"
    by (auto simp: calculate_fixed_hours_def)
next
  assume h: "0 < w \<and> 0 < n"
  then show e: "calculate_fixed_hours tie w n =
        py_round tie (of_int (n div 7) * w + (of_int (n mod 7) / 7) * w) 2"
    by (simp add: calculate_fixed_hours_def Let_def)
  show "\<exists>k::int. calculate_fixed_hours tie w n = of_int k / 100"
    unfolding e by (rule py_round_2_grid)
  show "\<bar>calculate_fixed_hours tie w n
         - (of_int (n div 7) * w + (of_int (n mod 7) / 7) * w)\<bar> \<le> 1 / 200"
    unfolding e by (rule py_round_2_close)
qed

text \<open>
  At 0.105 weekly hours and one day the sum is 0.015, exactly between 0.01 and 0.02:
  the result is 0.01 when \<open>round\<close> takes 0.015 downwards and 0.02 when upwards.
\<close>

theorem calculate_fixed_hours_rounded_witness:
  "(0 < (40::rat) \<and> 0 < (28::int)) \<and> calculate_fixed_hours (\<lambda>x. False) 40 28 = 160 \<and>
   ((40::rat) \<le> 0 \<or> (0::int) \<le> 0) \<and> calculate_fixed_hours (\<lambda>x. False) 40 0 = 0 \<and>
   (0 < (21 / 200 :: rat) \<and> 0 < (1::int)) \<and>
   calculate_fixed_hours (\<lambda>x. False) (21 / 200) 1 = 1 / 100 \<and>
   calculate_fixed_hours (\<lambda>x. True) (21 / 200) 1 = 2 / 100"
proof -
  have h: "0 < (40::rat) \<and> 0 < (28::int)" by simp
  have z: "(40::rat) \<le> 0 \<or> (0::int) \<le> 0" by simp
  have t: "0 < (21 / 200 :: rat) \<and> 0 < (1::int)" by simp
  from calculate_fixed_hours_rounded [of 40 28 "\<lambda>x. False"] h
  have "calculate_fixed_hours (\<lambda>x. False) 40 28 =
          py_round (\<lambda>x. False) (of_int (28 div 7) * 40 + (of_int (28 mod 7) / 7) * 40) 2"
    by blast
  also have "\<dots> = 160" by code_simp
  finally have a: "calculate_fixed_hours (\<lambda>x. False) 40 28 = 160" .
  from calculate_fixed_hours_rounded [of 40 0 "\<lambda>x. False"] z
  have b: "calculate_fixed_hours (\<lambda>x. False) 40 0 = 0" by blast
  from calculate_fixed_hours_rounded [of "21 / 200" 1 "\<lambda>x. False"] t
  have "calculate_fixed_hours (\<lambda>x. False) (21 / 200) 1 =
          py_round (\<lambda>x. False) (of_int (1 div 7) * (21 / 200) + (of_int (1 mod 7) / 7) * (21 / 200)) 2"
    by blast
  also have "\<dots> = 1 / 100" by code_simp
  finally have c: "calculate_fixed_hours (\<lambda>x. False) (21 / 200) 1 = 1 / 100" .
  from calculate_fixed_hours_rounded [of "21 / 200" 1 "\<lambda>x. True"] t
  have "calculate_fixed_hours (\<lambda>x. True) (21 / 200) 1 =
          py_round (\<lambda>x. True) (of_int (1 div 7) * (21 / 200) + (of_int (1 mod 7) / 7) * (21 / 200)) 2"
    by blast
  also have "\<dots> = 2 / 100" by code_simp
  finally have d: "calculate_fixed_hours (\<lambda>x. True) (21 / 200) 1 = 2 / 100" .
  from h a z b t c d show ?thesis by blast
qed

section \<open>The payroll period (C9, C10)\<close>

lemma py_date_day_11:
  "py_date y m 11 =
     (if MINYEAR \<le> y \<and> y \<le> MAXYEAR \<and> 1 \<le> m \<and> m \<le> 12
      then Some \<lparr>year = y, month = m, day = 11\<rparr> else None)"
  by (auto simp: py_date_def days_in_month_def)

lemma py_date_day_10:
  "py_date y m 10 =
     (if MINYEAR \<le> y \<and> y \<le> MAXYEAR \<and> 1 \<le> m \<and> m \<le> 12
      then Some \<lparr>year = y, month = m, day = 10\<rparr> else None)"
  by (auto simp: py_date_def days_in_month_def)

lemma get_monthly_payroll_period_eval:
  "get_monthly_payroll_period yr mo =
     (if MINYEAR \<le> yr \<and> yr \<le> MAXYEAR \<and> 1 \<le> mo \<and> mo \<le> 12 \<and> \<not> (yr = MAXYEAR \<and> mo = 12)
      then Some (\<lparr>year = yr, month = mo, day = 11\<rparr>,
                 \<lparr>year = (if mo = 12 then yr + 1 else yr),
                  month = (if mo = 12 then 1 else mo + 1), day = 10\<rparr>)
      else None)"
  by (simp add: get_monthly_payroll_period_def py_date_day_11 py_date_day_10 MINYEAR_def)

lemma valid_date_range:
  "valid_date t \<Longrightarrow> MINYEAR \<le> year t \<and> year t \<le> MAXYEAR \<and> 1 \<le> month t \<and> month t \<le> 12"
  by (simp add: valid_date_def py_date_def split: if_splits)

text \<open>
  Claim C10, as the code has it. For every year from 1 to 9999 and month from 1 to 12,
  except December 9999, \<open>get_monthly_payroll_period\<close> returns a start date on the 11th
  of that month and an end date on the 10th of the next calendar month, the year
  growing by one exactly when the month is 12.
\<close>

theorem get_monthly_payroll_period_shape:
  assumes "MINYEAR \<le> yr" "yr \<le> MAXYEAR" "1 \<le> mo" "mo \<le> 12" "\<not> (yr = MAXYEAR \<and> mo = 12)"
  shows "\<exists>s e. get_monthly_payroll_period yr mo = Some (s, e) \<and>
           year s = yr \<and> month s = mo \<and> day s = 11 \<and>
           day e = 10 \<and> month e = (if mo = 12 then 1 else mo + 1) \<and>
           year e = (if mo = 12 then yr + 1 else yr) \<and>
           (year e = year s + 1 \<longleftrightarrow> mo = 12)"
  using assms by (simp add: get_monthly_payroll_period_eval)

theorem get_monthly_payroll_period_shape_witness:
  "get_monthly_payroll_period 2024 12 =
     Some (\<lparr>year = 2024, month = 12, day = 11\<rparr>, \<lparr>year = 2025, month = 1, day = 10\<rparr>)"
  using get_monthly_payroll_period_shape [of 2024 12]
  by (auto simp: MINYEAR_def MAXYEAR_def)

text \<open>
  December 9999 is a valid year and month, and the start date 9999-12-11 exists, but
  the end date would lie in year 10000: the function returns no period.
\<close>

theorem get_monthly_payroll_period_last_month_counterexample:
  "MINYEAR \<le> 9999 \<and> 9999 \<le> MAXYEAR \<and> py_date 9999 12 11 \<noteq> None \<and>
   get_monthly_payroll_period 9999 12 = None"
  by code_simp

text \<open>
  Claim C9. The two arms of \<open>get_default_payroll_period\<close> choose the same target
  month for every value of \<open>today\<close>, so the result does not depend on the day of
  \<open>today\<close> and is the period of the month before. For every date the clock can give
  (a valid date later than January of year 1, the first month \<open>datetime.date\<close> can
  hold) the result is the period from the 11th of the previous month (December of the
  previous year when \<open>today\<close> is in January) to the 10th of the month of \<open>today\<close>.
\<close>

theorem get_default_payroll_period_branches:
  "default_target_on_or_before_10th today = default_target_after_10th today \<and>
   get_default_payroll_period (today\<lparr>day := d\<rparr>) = get_default_payroll_period today \<and>
   get_default_payroll_period today =
     get_monthly_payroll_period (if month today = 1 then year today - 1 else year today)
                                (if month today = 1 then 12 else month today - 1) \<and>
   (valid_date today \<and> \<not> (year today = MINYEAR \<and> month today = 1) \<longrightarrow>
      get_default_payroll_period today =
        Some (\<lparr>year = (if month today = 1 then year today - 1 else year today),
               month = (if month today = 1 then 12 else month today - 1), day = 11\<rparr>,
              \<lparr>year = year today, month = month today, day = 10\<rparr>))"
proof -
  have t: "default_target_on_or_before_10th today = default_target_after_10th today"
    by (simp add: default_target_on_or_before_10th_def default_target_after_10th_def)
  have i: "get_default_payroll_period (today\<lparr>day := d\<rparr>) = get_default_payroll_period today"
    by (simp add: get_default_payroll_period_def default_target_on_or_before_10th_def
        default_target_after_10th_def)
  have m: "get_default_payroll_period today =
     get_monthly_payroll_period (if month today = 1 then year today - 1 else year today)
                                (if month today = 1 then 12 else month today - 1)"
    by (simp add: get_default_payroll_period_def default_target_on_or_before_10th_def
        default_target_after_10th_def)
  have p: "get_default_payroll_period today =
           Some (\<lparr>year = (if month today = 1 then year today - 1 else year today),
                  month = (if month today = 1 then 12 else month today - 1), day = 11\<rparr>,
                 \<lparr>year = year today, month = month today, day = 10\<rparr>)"
    if v: "valid_date today" and n: "\<not> (year today = MINYEAR \<and> month today = 1)"
  proof -
    from valid_date_range [OF v]
    have r: "MINYEAR \<le> year today" "year today \<le> MAXYEAR" "1 \<le> month today" "month today \<le> 12"
      by simp_all
    show ?thesis using r n
      by (auto simp: get_default_payroll_period_def default_target_on_or_before_10th_def
          default_target_after_10th_def get_monthly_payroll_period_eval MINYEAR_def MAXYEAR_def)
  qed
  from t i m p show ?thesis by blast
qed

theorem get_default_payroll_period_branches_witness:
  "get_default_payroll_period \<lparr>year = 2025, month = 1, day = 15\<rparr> =
     Some (\<lparr>year = 2024, month = 12, day = 11\<rparr>, \<lparr>year = 2025, month = 1, day = 10\<rparr>) \<and>
   get_default_payroll_period \<lparr>year = 2025, month = 1, day = 3\<rparr> =
     get_default_payroll_period \<lparr>year = 2025, month = 1, day = 15\<rparr>"
proof -
  have v: "valid_date \<lparr>year = 2025, month = 1, day = 15\<rparr>" by code_simp
  have n: "\<not> (year \<lparr>year = 2025, month = 1, day = 15\<rparr> = MINYEAR
              \<and> month \<lparr>year = 2025, month = 1, day = 15\<rparr> = 1)"
    by (simp add: MINYEAR_def)
  from get_default_payroll_period_branches [of "\<lparr>year = 2025, month = 1, day = 15\<rparr>" 3] v n
  have "get_default_payroll_period (\<lparr>year = 2025, month = 1, day = 15\<rparr>\<lparr>day := 3\<rparr>) =
          get_default_payroll_period \<lparr>year = 2025, month = 1, day = 15\<rparr> \<and>
        get_default_payroll_period \<lparr>year = 2025, month = 1, day = 15\<rparr> =
          Some (\<lparr>year = (if month \<lparr>year = 2025, month = 1, day = 15\<rparr> = 1
                         then year \<lparr>year = 2025, month = 1, day = 15\<rparr> - 1
                         else year \<lparr>year = 2025, month = 1, day = 15\<rparr>),
                 month = (if month \<lparr>year = 2025, month = 1, day = 15\<rparr> = 1 then 12
                          else month \<lparr>year = 2025, month = 1, day = 15\<rparr> - 1), day = 11\<rparr>,
                \<lparr>year = year \<lparr>year = 2025, month = 1, day = 15\<rparr>,
                 month = month \<lparr>year = 2025, month = 1, day = 15\<rparr>, day = 10\<rparr>)"
    by blast
  then show ?thesis by simp
qed

section \<open>On-call hours (C5)\<close>

lemma build_shift_lookup_keys:
  "map_of (build_shift_lookup stubs lk) sid \<noteq> None \<longleftrightarrow>
     map_of lk sid \<noteq> None \<or> (sid \<noteq> 0 \<and> Some sid \<in> set (map shift_id stubs))"
proof (induction stubs arbitrary: lk)
  case Nil
  then show ?case by simp
next
  case (Cons s rest)
  show ?case
  proof (cases "shift_id s")
    case None
    then show ?thesis using Cons.IH [of lk] by auto
  next
    case (Some i)
    show ?thesis
    proof (cases "i = 0")
      case True
      then show ?thesis using Some Cons.IH [of lk] by auto
    next
      case False
      then show ?thesis
        using Some Cons.IH [of "AList.update i (start_time s, end_time s, minutes_break s) lk"]
        by (auto simp: update_conv')
    qed
  qed
qed

lemma on_call_attendance_step_fst:
  "fst (on_call_attendance_step f lk a (t, ws)) =
     (if attendance_counted f lk a then t + of_int (the (out_time a) - the (in_time a)) / 3600 else t)"
  by (auto simp: on_call_attendance_step_def attendance_counted_def unix_to_datetime_def py_truthy_def Let_def
      split: option.splits)

lemma on_call_attendance_loop_fst:
  "fst (on_call_attendance_loop f lk records (t, ws)) =
     t + sum_list (map (\<lambda>a. of_int (the (out_time a) - the (in_time a)) / 3600)
                    (filter (attendance_counted f lk) records))"
proof (induction records arbitrary: t ws)
  case Nil
  then show ?case by simp
next
  case (Cons a rest)
  obtain t' ws' where s: "on_call_attendance_step f lk a (t, ws) = (t', ws')"
    by (cases "on_call_attendance_step f lk a (t, ws)")
  have "t' = (if attendance_counted f lk a then t + of_int (the (out_time a) - the (in_time a)) / 3600 else t)"
    using on_call_attendance_step_fst [of f lk a t ws] s by simp
  then show ?case using Cons.IH [of t' ws'] s by simp
qed

lemma on_call_step_warnings_mono:
  "set ws \<subseteq> set (snd (on_call_attendance_step f lk a (t, ws)))"
  by (auto simp: on_call_attendance_step_def Let_def split: option.splits)

lemma on_call_loop_warnings_mono:
  "set ws \<subseteq> set (snd (on_call_attendance_loop f lk records (t, ws)))"
proof (induction records arbitrary: t ws)
  case Nil
  then show ?case by simp
next
  case (Cons a rest)
  obtain t' ws' where s: "on_call_attendance_step f lk a (t, ws) = (t', ws')"
    by (cases "on_call_attendance_step f lk a (t, ws)")
  have "set ws \<subseteq> set ws'" using on_call_step_warnings_mono [of ws f lk a t] s by simp
  moreover have "set ws' \<subseteq> set (snd (on_call_attendance_loop f lk rest (t', ws')))"
    by (rule Cons.IH)
  ultimately show ?case using s by auto
qed

lemma on_call_step_warns_long:
  "attendance_counted f lk a \<Longrightarrow> 12 < (of_int (the (out_time a) - the (in_time a)) / 3600 :: rat) \<Longrightarrow>
   SuspiciouslyLong (shift a) (of_int (the (out_time a) - the (in_time a)) / 3600)
     \<in> set (snd (on_call_attendance_step f lk a (t, ws)))"
  by (auto simp: on_call_attendance_step_def attendance_counted_def unix_to_datetime_def py_truthy_def Let_def
      split: option.splits)

lemma on_call_loop_warns_long:
  "a \<in> set records \<Longrightarrow> attendance_counted f lk a \<Longrightarrow>
   12 < (of_int (the (out_time a) - the (in_time a)) / 3600 :: rat) \<Longrightarrow>
   SuspiciouslyLong (shift a) (of_int (the (out_time a) - the (in_time a)) / 3600)
     \<in> set (snd (on_call_attendance_loop f lk records (t, ws)))"
proof (induction records arbitrary: t ws)
  case Nil
  then show ?case by simp
next
  case (Cons b rest)
  obtain t' ws' where s: "on_call_attendance_step f lk b (t, ws) = (t', ws')"
    by (cases "on_call_attendance_step f lk b (t, ws)")
  show ?case
  proof (cases "a = b")
    case True
    have "SuspiciouslyLong (shift a) (of_int (the (out_time a) - the (in_time a)) / 3600) \<in> set ws'"
      using on_call_step_warns_long [OF Cons.prems(2,3), of t ws] s True by simp
    then show ?thesis using on_call_loop_warnings_mono [of ws' f lk rest t'] s by auto
  next
    case False
    then have "a \<in> set rest" using Cons.prems(1) by simp
    from Cons.IH [OF this Cons.prems(2,3), of t' ws'] show ?thesis using s by simp
  qed
qed

text \<open>
  Claim C5, as the code has it. The assigned-shift count is the number of stubs,
  whatever the attendance. The worked hours are the sum, rounded to two decimals (the
  result of \<open>round\<close>, a whole number of hundredths within half a hundredth of the
  sum, whichever way \<open>round\<close> takes a sum exactly between two hundredths), of
  \<open>(out_time - in_time) / 3600\<close> over exactly the attendance records that are not
  deleted, whose shift id is present, not zero and the id of a stub, whose \<open>in_time\<close>
  and \<open>out_time\<close> are present, not zero and convertible to a datetime, and whose
  duration is strictly positive. A duration above 12 hours is still counted and raises
  the warning \<open>SuspiciouslyLong\<close>; every other record is skipped and the function
  returns a result for every input.
\<close>

theorem calculate_on_call_hours_sum:
  fixes tie :: "rat \<Rightarrow> bool" and fromtimestamp :: "int \<Rightarrow> 'dt option"
  defines "hrs \<equiv> \<lambda>a. (of_int (the (out_time a) - the (in_time a)) / 3600 :: rat)"
  defines "ok \<equiv> \<lambda>stubs a.
     \<not> deleted a \<and>
     shift a \<noteq> None \<and> shift a \<noteq> Some 0 \<and> shift a \<in> set (map shift_id stubs) \<and>
     py_truthy (in_time a) \<and> py_truthy (out_time a) \<and>
     fromtimestamp (the (in_time a)) \<noteq> None \<and> fromtimestamp (the (out_time a)) \<noteq> None \<and>
     0 < the (out_time a) - the (in_time a)"
  shows "fst (snd (calculate_on_call_hours tie fromtimestamp stubs attendance_data)) = int (length stubs) \<and>
     fst (calculate_on_call_hours tie fromtimestamp stubs attendance_data) =
       py_round tie (sum_list (map hrs (filter (ok stubs)
                   (case attendance_data of None \<Rightarrow> [] | Some records \<Rightarrow> records)))) 2 \<and>
     (\<exists>k::int. fst (calculate_on_call_hours tie fromtimestamp stubs attendance_data) = of_int k / 100) \<and>
     \<bar>fst (calculate_on_call_hours tie fromtimestamp stubs attendance_data)
        - sum_list (map hrs (filter (ok stubs)
                   (case attendance_data of None \<Rightarrow> [] | Some records \<Rightarrow> records)))\<bar> \<le> 1 / 200 \<and>
     (\<forall>a \<in> set (case attendance_data of None \<Rightarrow> [] | Some records \<Rightarrow> records).
        ok stubs a \<and> 12 < hrs a \<longrightarrow>
          SuspiciouslyLong (shift a) (hrs a)
            \<in> set (snd (snd (calculate_on_call_hours tie fromtimestamp stubs attendance_data))))"
proof -
  have eq: "ok stubs = attendance_counted fromtimestamp (build_shift_lookup stubs [])"
  proof
    fix a :: attendance
    have "(shift a \<noteq> None \<and> map_of (build_shift_lookup stubs []) (the (shift a)) \<noteq> None)
          = (shift a \<noteq> None \<and> shift a \<noteq> Some 0 \<and> shift a \<in> set (map shift_id stubs))"
    proof (cases "shift a")
      case None
      then show ?thesis by simp
    next
      case (Some sid)
      have "map_of (build_shift_lookup stubs []) sid \<noteq> None \<longleftrightarrow>
              sid \<noteq> 0 \<and> Some sid \<in> set (map shift_id stubs)"
        using build_shift_lookup_keys [of stubs "[]" sid] by simp
      then show ?thesis using Some by simp
    qed
    then show "ok stubs a = attendance_counted fromtimestamp (build_shift_lookup stubs []) a"
      unfolding ok_def attendance_counted_def by blast
  qed
  have main: "fst (snd (calculate_on_call_hours tie fromtimestamp stubs attendance_data)) = int (length stubs) \<and>
     fst (calculate_on_call_hours tie fromtimestamp stubs attendance_data) =
       py_round tie (sum_list (map hrs (filter (ok stubs)
                   (case attendance_data of None \<Rightarrow> [] | Some records \<Rightarrow> records)))) 2 \<and>
     (\<forall>a \<in> set (case attendance_data of None \<Rightarrow> [] | Some records \<Rightarrow> records).
        ok stubs a \<and> 12 < hrs a \<longrightarrow>
          SuspiciouslyLong (shift a) (hrs a)
            \<in> set (snd (snd (calculate_on_call_hours tie fromtimestamp stubs attendance_data))))"
  proof (cases "stubs = []")
    case True
    then have "filter (ok stubs) xs = []" for xs
      by (auto simp: ok_def filter_empty_conv)
    then show ?thesis using True
      by (auto simp: calculate_on_call_hours_def ok_def)
  next
    case False
    show ?thesis
    proof (cases attendance_data)
      case None
      then show ?thesis using False by (simp add: calculate_on_call_hours_def)
    next
      case (Some records)
      show ?thesis
      proof (cases records)
        case Nil
        then show ?thesis using False Some by (simp add: calculate_on_call_hours_def)
      next
        case (Cons r rest)
        obtain t ws where l: "on_call_attendance_loop fromtimestamp (build_shift_lookup stubs []) records (0, []) = (t, ws)"
          by (cases "on_call_attendance_loop fromtimestamp (build_shift_lookup stubs []) records (0, [])")
        have c: "calculate_on_call_hours tie fromtimestamp stubs attendance_data
                   = (py_round tie t 2, int (length stubs), ws)"
          using False Some Cons l by (simp add: calculate_on_call_hours_def)
        have t: "t = sum_list (map hrs (filter (ok stubs) records))"
          using on_call_attendance_loop_fst [of fromtimestamp "build_shift_lookup stubs []" records 0 "[]"] l
          by (simp add: eq hrs_def)
        have w: "SuspiciouslyLong (shift a) (hrs a) \<in> set ws"
          if "a \<in> set records" "ok stubs a" "12 < hrs a" for a
          using on_call_loop_warns_long [of a records fromtimestamp "build_shift_lookup stubs []" 0 "[]"] that l
          by (simp add: eq hrs_def)
        show ?thesis using c t w Some by auto
      qed
    qed
  qed
  then have r: "fst (calculate_on_call_hours tie fromtimestamp stubs attendance_data) =
       py_round tie (sum_list (map hrs (filter (ok stubs)
                   (case attendance_data of None \<Rightarrow> [] | Some records \<Rightarrow> records)))) 2"
    by blast
  have g: "\<exists>k::int. fst (calculate_on_call_hours tie fromtimestamp stubs attendance_data) = of_int k / 100"
    unfolding r by (rule py_round_2_grid)
  have c: "\<bar>fst (calculate_on_call_hours tie fromtimestamp stubs attendance_data)
        - sum_list (map hrs (filter (ok stubs)
                   (case attendance_data of None \<Rightarrow> [] | Some records \<Rightarrow> records)))\<bar> \<le> 1 / 200"
    unfolding r by (rule py_round_2_close)
  from main g c show ?thesis by blast
qed

text \<open>
  Two stubs and four attendance records, one of 2 hours, one of 13 hours, one deleted
  and one of another shift: 15 hours, 2 shifts and one warning. A single attendance of
  3654 seconds is 1.015 hours: 1.01 when \<open>round\<close> takes 1.015 downwards, 1.02 when
  upwards.
\<close>

theorem calculate_on_call_hours_sum_witness:
  "fst (snd (calculate_on_call_hours (\<lambda>x. False) (Some :: int \<Rightarrow> int option)
       [\<lparr>shift_id = Some 5, start_time = 1000, end_time = 8200, minutes_break = 0\<rparr>,
        \<lparr>shift_id = Some 6, start_time = 100000, end_time = 146800, minutes_break = 0\<rparr>]
       (Some [\<lparr>shift = Some 5, in_time = Some 1000, out_time = Some 8200, deleted = False\<rparr>,
              \<lparr>shift = Some 6, in_time = Some 100000, out_time = Some 146800, deleted = False\<rparr>,
              \<lparr>shift = Some 6, in_time = Some 200000, out_time = Some 203600, deleted = True\<rparr>,
              \<lparr>shift = Some 9, in_time = Some 300000, out_time = Some 303600, deleted = False\<rparr>]))) = 2 \<and>
   fst (calculate_on_call_hours (\<lambda>x. False) (Some :: int \<Rightarrow> int option)
       [\<lparr>shift_id = Some 5, start_time = 1000, end_time = 8200, minutes_break = 0\<rparr>,
        \<lparr>shift_id = Some 6, start_time = 100000, end_time = 146800, minutes_break = 0\<rparr>]
       (Some [\<lparr>shift = Some 5, in_time = Some 1000, out_time = Some 8200, deleted = False\<rparr>,
              \<lparr>shift = Some 6, in_time = Some 100000, out_time = Some 146800, deleted = False\<rparr>,
              \<lparr>shift = Some 6, in_time = Some 200000, out_time = Some 203600, deleted = True\<rparr>,
              \<lparr>shift = Some 9, in_time = Some 300000, out_time = Some 303600, deleted = False\<rparr>])) = 15 \<and>
   SuspiciouslyLong (Some 6) 13 \<in> set (snd (snd (calculate_on_call_hours (\<lambda>x. False) (Some :: int \<Rightarrow> int option)
       [\<lparr>shift_id = Some 5, start_time = 1000, end_time = 8200, minutes_break = 0\<rparr>,
        \<lparr>shift_id = Some 6, start_time = 100000, end_time = 146800, minutes_break = 0\<rparr>]
       (Some [\<lparr>shift = Some 5, in_time = Some 1000, out_time = Some 8200, deleted = False\<rparr>,
              \<lparr>shift = Some 6, in_time = Some 100000, out_time = Some 146800, deleted = False\<rparr>,
              \<lparr>shift = Some 6, in_time = Some 200000, out_time = Some 203600, deleted = True\<rparr>,
              \<lparr>shift = Some 9, in_time = Some 300000, out_time = Some 303600, deleted = False\<rparr>])))) \<and>
   fst (calculate_on_call_hours (\<lambda>x. False) (Some :: int \<Rightarrow> int option)
       [\<lparr>shift_id = Some 5, start_time = 1000, end_time = 4654, minutes_break = 0\<rparr>]
       (Some [\<lparr>shift = Some 5, in_time = Some 1000, out_time = Some 4654, deleted = False\<rparr>])) = 101 / 100 \<and>
   fst (calculate_on_call_hours (\<lambda>x. True) (Some :: int \<Rightarrow> int option)
       [\<lparr>shift_id = Some 5, start_time = 1000, end_time = 4654, minutes_break = 0\<rparr>]
       (Some [\<lparr>shift = Some 5, in_time = Some 1000, out_time = Some 4654, deleted = False\<rparr>])) = 102 / 100"
proof -
  have a: "fst (snd (calculate_on_call_hours (\<lambda>x. False) (Some :: int \<Rightarrow> int option)
       [\<lparr>shift_id = Some 5, start_time = 1000, end_time = 8200, minutes_break = 0\<rparr>,
        \<lparr>shift_id = Some 6, start_time = 100000, end_time = 146800, minutes_break = 0\<rparr>]
       (Some [\<lparr>shift = Some 5, in_time = Some 1000, out_time = Some 8200, deleted = False\<rparr>,
              \<lparr>shift = Some 6, in_time = Some 100000, out_time = Some 146800, deleted = False\<rparr>,
              \<lparr>shift = Some 6, in_time = Some 200000, out_time = Some 203600, deleted = True\<rparr>,
              \<lparr>shift = Some 9, in_time = Some 300000, out_time = Some 303600, deleted = False\<rparr>]))) = 2 \<and>
   fst (calculate_on_call_hours (\<lambda>x. False) (Some :: int \<Rightarrow> int option)
       [\<lparr>shift_id = Some 5, start_time = 1000, end_time = 8200, minutes_break = 0\<rparr>,
        \<lparr>shift_id = Some 6, start_time = 100000, end_time = 146800, minutes_break = 0\<rparr>]
       (Some [\<lparr>shift = Some 5, in_time = Some 1000, out_time = Some 8200, deleted = False\<rparr>,
              \<lparr>shift = Some 6, in_time = Some 100000, out_time = Some 146800, deleted = False\<rparr>,
              \<lparr>shift = Some 6, in_time = Some 200000, out_time = Some 203600, deleted = True\<rparr>,
              \<lparr>shift = Some 9, in_time = Some 300000, out_time = Some 303600, deleted = False\<rparr>])) = 15 \<and>
   SuspiciouslyLong (Some 6) 13 \<in> set (snd (snd (calculate_on_call_hours (\<lambda>x. False) (Some :: int \<Rightarrow> int option)
       [\<lparr>shift_id = Some 5, start_time = 1000, end_time = 8200, minutes_break = 0\<rparr>,
        \<lparr>shift_id = Some 6, start_time = 100000, end_time = 146800, minutes_break = 0\<rparr>]
       (Some [\<lparr>shift = Some 5, in_time = Some 1000, out_time = Some 8200, deleted = False\<rparr>,
              \<lparr>shift = Some 6, in_time = Some 100000, out_time = Some 146800, deleted = False\<rparr>,
              \<lparr>shift = Some 6, in_time = Some 200000, out_time = Some 203600, deleted = True\<rparr>,
              \<lparr>shift = Some 9, in_time = Some 300000, out_time = Some 303600, deleted = False\<rparr>]))))"
    using calculate_on_call_hours_sum [of "\<lambda>x. False" "(Some :: int \<Rightarrow> int option)"
       "[\<lparr>shift_id = Some 5, start_time = 1000, end_time = 8200, minutes_break = 0\<rparr>,
        \<lparr>shift_id = Some 6, start_time = 100000, end_time = 146800, minutes_break = 0\<rparr>]"
       "(Some [\<lparr>shift = Some 5, in_time = Some 1000, out_time = Some 8200, deleted = False\<rparr>,
              \<lparr>shift = Some 6, in_time = Some 100000, out_time = Some 146800, deleted = False\<rparr>,
              \<lparr>shift = Some 6, in_time = Some 200000, out_time = Some 203600, deleted = True\<rparr>,
              \<lparr>shift = Some 9, in_time = Some 300000, out_time = Some 303600, deleted = False\<rparr>])"]
    by (simp add: py_truthy_def py_round_def round_nearest_def)
  have b: "fst (calculate_on_call_hours (\<lambda>x. False) (Some :: int \<Rightarrow> int option)
       [\<lparr>shift_id = Some 5, start_time = 1000, end_time = 4654, minutes_break = 0\<rparr>]
       (Some [\<lparr>shift = Some 5, in_time = Some 1000, out_time = Some 4654, deleted = False\<rparr>])) = 101 / 100"
    by code_simp
  have c: "fst (calculate_on_call_hours (\<lambda>x. True) (Some :: int \<Rightarrow> int option)
       [\<lparr>shift_id = Some 5, start_time = 1000, end_time = 4654, minutes_break = 0\<rparr>]
       (Some [\<lparr>shift = Some 5, in_time = Some 1000, out_time = Some 4654, deleted = False\<rparr>])) = 102 / 100"
    by code_simp
  from a b c show ?thesis by blast
qed

text \<open>
  An attendance record with \<open>in_time = 0\<close> and \<open>out_time = 3600\<close> matches the stub,
  is not deleted, has both times present and lasts one hour; \<open>not in_time\<close> holds for
  0, so the code skips it and returns 0 hours where the stated sum is 1.
\<close>

theorem calculate_on_call_hours_zero_timestamp_counterexample:
  "fst (calculate_on_call_hours (\<lambda>x. False) (Some :: int \<Rightarrow> int option)
          [\<lparr>shift_id = Some 5, start_time = 0, end_time = 3600, minutes_break = 0\<rparr>]
          (Some [\<lparr>shift = Some 5, in_time = Some 0, out_time = Some 3600, deleted = False\<rparr>])) = 0 \<and>
   spec_on_call_worked_hours (\<lambda>x. False)
          [\<lparr>shift_id = Some 5, start_time = 0, end_time = 3600, minutes_break = 0\<rparr>]
          [\<lparr>shift = Some 5, in_time = Some 0, out_time = Some 3600, deleted = False\<rparr>] = 1"
  by code_simp

section \<open>Who is in the report (C3)\<close>

lemma on_call_sum_nonneg:
  "0 \<le> sum_list (map (\<lambda>a. of_int (the (out_time a) - the (in_time a)) / 3600 :: rat)
                    (filter (attendance_counted f lk) records))"
  by (rule sum_list_nonneg) (auto simp: attendance_counted_def)

lemma calculate_on_call_hours_fst:
  "fst (calculate_on_call_hours tie f stubs attendance_data) =
     (if stubs = [] then 0
      else case attendance_data of
             None \<Rightarrow> 0
           | Some records \<Rightarrow>
               py_round tie (fst (on_call_attendance_loop f (build_shift_lookup stubs []) records (0, []))) 2)"
  by (simp add: calculate_on_call_hours_def Let_def case_prod_beta split: option.splits list.splits)

lemma calculate_on_call_hours_nonneg:
  "0 \<le> fst (calculate_on_call_hours tie f stubs attendance_data)"
proof -
  have "0 \<le> py_round tie (fst (on_call_attendance_loop f lk records (0, []))) 2" for lk records
    using on_call_attendance_loop_fst [of f lk records 0 "[]"] on_call_sum_nonneg [of f lk records]
    by (simp add: py_round_nonneg)
  then show ?thesis
    by (simp add: calculate_on_call_hours_fst split: option.splits)
qed

lemma user_totals_display:
  "total_hours_display (fst (user_totals tie ra f sd ed pd u sj ad lj cr ca)) =
     total_hours (fst (user_totals tie ra f sd ed pd u sj ad lj cr ca))
     + on_call_hours (fst (user_totals tie ra f sd ed pd u sj ad lj cr ca))"
  by (simp add: user_totals_def Let_def case_prod_beta)

lemma user_totals_on_call_nonneg:
  "0 \<le> on_call_hours (fst (user_totals tie ra f sd ed pd u sj ad lj cr ca))"
proof -
  have "0 \<le> fst (if oc \<noteq> [] then calculate_on_call_hours tie f oc ad else (0, 0, []))" for oc
    by (simp add: calculate_on_call_hours_nonneg)
  then show ?thesis
    by (simp add: user_totals_def Let_def case_prod_beta)
qed

text \<open>
  Claim C3. An employee is appended to \<open>payroll_data\<close> exactly when the displayed
  total hours, the holiday hours, the holiday days, the sickness days or the worked
  on-call hours are positive; the row appended is the employee's totals, and an
  employee for whom all five are zero or less is left out. The source tests
  \<open>total_hours > 0\<close>, the hours without on-call: since the worked on-call hours are
  never negative and \<open>total_hours_display = total_hours + on_call_hours\<close>, the two
  tests agree.
\<close>

theorem process_user_emitted_iff:
  "process_user tie ra f sd ed pd u sj ad lj cr ca =
     (if 0 < total_hours_display (fst (user_totals tie ra f sd ed pd u sj ad lj cr ca))
         \<or> 0 < holiday_hours (fst (user_totals tie ra f sd ed pd u sj ad lj cr ca))
         \<or> 0 < holiday_days (fst (user_totals tie ra f sd ed pd u sj ad lj cr ca))
         \<or> 0 < sickness_days (fst (user_totals tie ra f sd ed pd u sj ad lj cr ca))
         \<or> 0 < on_call_hours (fst (user_totals tie ra f sd ed pd u sj ad lj cr ca))
      then Some (fst (user_totals tie ra f sd ed pd u sj ad lj cr ca)) else None)"
proof -
  let ?d = "fst (user_totals tie ra f sd ed pd u sj ad lj cr ca)"
  have "0 \<le> on_call_hours ?d" by (rule user_totals_on_call_nonneg)
  moreover have "total_hours_display ?d = total_hours ?d + on_call_hours ?d"
    by (rule user_totals_display)
  ultimately have "(0 < total_hours ?d \<or> 0 < on_call_hours ?d)
      = (0 < total_hours_display ?d \<or> 0 < on_call_hours ?d)"
    by linarith
  then show ?thesis
    by (auto simp: process_user_def Let_def)
qed


section \<open>The pay of a row (C1, C4)\<close>

lemma sum_list_zero_pairs:
  "sum_list (map (\<lambda>(role_id, role_name). (0::rat)) (sorted_roles :: (int \<times> string) list)) = 0"
  by (induction sorted_roles) auto

text \<open>
  Claim C1. An hourly employee with rate 14, 40 weekly hours, fixed hours of a 28-day
  period (160), 200 displayed hours of which 20 are worked on-call hours, 10 assigned
  on-call shifts, no custom-role hours and no holiday hours has 140 hours at base
  rate, 40 overtime hours and a total pay of 2878.40 at the overtime rate 12.21, in
  the preview and in the spreadsheet formulas alike; the total is the sum of the six
  terms of the hourly formula.
\<close>

theorem worked_example_pay:
  assumes "pay_type data = Some ''hourly''"
    and "rate_1 data = 14"
    and "weekly_hours data = 40"
    and "fixed_hours data = calculate_fixed_hours tie (weekly_hours data) 28"
    and "total_hours_display data = 200"
    and "on_call_hours data = 20"
    and "total_hours_display data = total_hours data + on_call_hours data"
    and "on_call_shift_count data = 10"
    and "custom_role_hours data = []"
    and "holiday_hours data = 0"
  shows "fixed_hours data = 160 \<and>
         preview_hours_worked data = 140 \<and> excel_hours data = 140 \<and>
         preview_overtime_hrs data = 40 \<and> excel_overtime_hrs data = 40 \<and>
         preview_total_pay UK_MINIMUM_WAGE data = 287840 / 100 \<and>
         preview_total_pay_shown tie UK_MINIMUM_WAGE data = 287840 / 100 \<and>
         excel_total_pay UK_MINIMUM_WAGE sorted_roles data = 287840 / 100 \<and>
         preview_total_pay UK_MINIMUM_WAGE data =
           preview_hours_worked data * rate_1 data
           + sum_list (map (\<lambda>(role_id, rd). hours rd * rate rd) (custom_role_hours data))
           + on_call_hours data * rate_1 data
           + of_int (on_call_shift_count data) * 15
           + preview_overtime_hrs data * (1221 / 100)
           + holiday_hours data * rate_1 data"
proof -
  have f: "calculate_fixed_hours tie 40 28 = 160" by (rule calculate_fixed_hours_40_28)
  then have fixed: "fixed_hours data = 160" using assms(3,4) by simp
  have total: "total_hours data = 180" using assms(5,6,7) by simp
  have h: "preview_hours_worked data = 140"
    using fixed total assms(6) by (simp add: preview_hours_worked_def)
  have eh: "excel_hours data = 140"
    using fixed assms(5,6) by (simp add: excel_hours_def)
  have ot: "preview_overtime_hrs data = 40"
    using fixed assms(5) by (simp add: preview_overtime_hrs_def)
  have eot: "excel_overtime_hrs data = 40"
    using fixed assms(5) by (simp add: excel_overtime_hrs_def)
  have formula: "preview_total_pay UK_MINIMUM_WAGE data =
           preview_hours_worked data * rate_1 data
           + sum_list (map (\<lambda>(role_id, rd). hours rd * rate rd) (custom_role_hours data))
           + on_call_hours data * rate_1 data
           + of_int (on_call_shift_count data) * 15
           + preview_overtime_hrs data * (1221 / 100)
           + holiday_hours data * rate_1 data"
    using assms(1)
    by (simp add: preview_total_pay_def Let_def ON_CALL_FLAT_RATE_def UK_MINIMUM_WAGE_def)
  have pay: "preview_total_pay UK_MINIMUM_WAGE data = 287840 / 100"
    unfolding formula using h ot assms(2,6,8,9,10) by simp
  have r: "py_round tie (287840 / 100) 2 = 287840 / 100"
    using py_round_2_unique [of 287840 "287840 / 100" tie] by simp
  have shown: "preview_total_pay_shown tie UK_MINIMUM_WAGE data = 287840 / 100"
    unfolding preview_total_pay_shown_def pay by (rule r)
  have epay: "excel_total_pay UK_MINIMUM_WAGE sorted_roles data = 287840 / 100"
    using assms(1,2,6,8,9,10) eh eot
    by (simp add: excel_total_pay_def sum_list_zero_pairs ON_CALL_FLAT_RATE_def
        UK_MINIMUM_WAGE_def)
  from fixed h eh ot eot pay shown epay formula show ?thesis by blast
qed

theorem worked_example_pay_witness:
  "preview_hours_worked
     \<lparr>employee_name = ''A B'', pay_type = Some ''hourly'', annual_salary = 0, hourly_rate = 14,
      weekly_hours = 40, total_hours = 180, total_hours_display = 200, fixed_hours = 160,
      rate_1 = 14, base_rate_hours = 180, custom_role_hours = [], on_call_hours = 20,
      on_call_shift_count = 10, holiday_days = 0, holiday_hours = 0, sickness_days = 0\<rparr> = 140 \<and>
   preview_total_pay UK_MINIMUM_WAGE
     \<lparr>employee_name = ''A B'', pay_type = Some ''hourly'', annual_salary = 0, hourly_rate = 14,
      weekly_hours = 40, total_hours = 180, total_hours_display = 200, fixed_hours = 160,
      rate_1 = 14, base_rate_hours = 180, custom_role_hours = [], on_call_hours = 20,
      on_call_shift_count = 10, holiday_days = 0, holiday_hours = 0, sickness_days = 0\<rparr>
     = 287840 / 100"
proof -
  let ?d = "\<lparr>employee_name = ''A B'', pay_type = Some ''hourly'', annual_salary = 0, hourly_rate = 14,
      weekly_hours = 40, total_hours = 180, total_hours_display = 200, fixed_hours = 160,
      rate_1 = 14, base_rate_hours = 180, custom_role_hours = [], on_call_hours = 20,
      on_call_shift_count = 10, holiday_days = 0, holiday_hours = 0, sickness_days = 0\<rparr>"
  have f: "calculate_fixed_hours (\<lambda>x. False) 40 28 = 160" by code_simp
  have "fixed_hours ?d = calculate_fixed_hours (\<lambda>x. False) (weekly_hours ?d) 28" using f by simp
  from worked_example_pay [where data = ?d and tie = "\<lambda>x. False", OF _ _ _ this]
  show ?thesis by simp
qed

text \<open>
  Claim C4. For a salaried employee (\<open>pay_type = annual\<close>) the total pay is
  \<open>annual_salary / 12\<close> in the preview and in the spreadsheet, whatever the hour
  buckets, the on-call count and the leave totals of the row are.
\<close>

theorem salaried_total_pay:
  assumes "pay_type data = Some ''annual''"
  shows "preview_total_pay overtime_rate data = annual_salary data / 12 \<and>
         excel_total_pay overtime_rate sorted_roles data = annual_salary data / 12 \<and>
         preview_total_pay overtime_rate
           (data\<lparr>total_hours := v1, total_hours_display := v2, fixed_hours := v3,
                 base_rate_hours := v4, custom_role_hours := v5, on_call_hours := v6,
                 on_call_shift_count := v7, holiday_days := v8, holiday_hours := v9,
                 sickness_days := v10\<rparr>) = annual_salary data / 12 \<and>
         excel_total_pay overtime_rate sorted_roles
           (data\<lparr>total_hours := v1, total_hours_display := v2, fixed_hours := v3,
                 base_rate_hours := v4, custom_role_hours := v5, on_call_hours := v6,
                 on_call_shift_count := v7, holiday_days := v8, holiday_hours := v9,
                 sickness_days := v10\<rparr>) = annual_salary data / 12"
  using assms by (simp add: preview_total_pay_def excel_total_pay_def)

theorem salaried_total_pay_witness:
  "preview_total_pay UK_MINIMUM_WAGE
     \<lparr>employee_name = ''C D'', pay_type = Some ''annual'', annual_salary = 30000, hourly_rate = 0,
      weekly_hours = 40, total_hours = 0, total_hours_display = 0, fixed_hours = 160,
      rate_1 = 1442 / 100, base_rate_hours = 0, custom_role_hours = [], on_call_hours = 0,
      on_call_shift_count = 0, holiday_days = 1, holiday_hours = 0, sickness_days = 0\<rparr> = 2500 \<and>
   excel_total_pay UK_MINIMUM_WAGE []
     \<lparr>employee_name = ''C D'', pay_type = Some ''annual'', annual_salary = 30000, hourly_rate = 0,
      weekly_hours = 40, total_hours = 0, total_hours_display = 0, fixed_hours = 160,
      rate_1 = 1442 / 100, base_rate_hours = 0, custom_role_hours = [], on_call_hours = 0,
      on_call_shift_count = 0, holiday_days = 1, holiday_hours = 0, sickness_days = 0\<rparr> = 2500"
  using salaried_total_pay [of
     "\<lparr>employee_name = ''C D'', pay_type = Some ''annual'', annual_salary = 30000, hourly_rate = 0,
      weekly_hours = 40, total_hours = 0, total_hours_display = 0, fixed_hours = 160,
      rate_1 = 1442 / 100, base_rate_hours = 0, custom_role_hours = [], on_call_hours = 0,
      on_call_shift_count = 0, holiday_days = 1, holiday_hours = 0, sickness_days = 0\<rparr>"
     UK_MINIMUM_WAGE "[]"]
  by simp

section \<open>Hours at base rate and the on-call only employee (C2, C7)\<close>

text \<open>
  Claim C2. For every row of \<open>payroll_data\<close> the hours at base rate are
  \<open>min(total_hours_display - on_call_hours, fixed_hours - on_call_hours)\<close>, in the
  preview (which computes \<open>min(total_hours, fixed_hours - on_call_hours)\<close>) and in
  the spreadsheet formula, and nothing clamps them at zero: when the worked on-call
  hours exceed the fixed hours they are negative, and for an hourly row they enter the
  total pay as the term \<open>hours * rate_1\<close>, which is negative for a positive rate.
\<close>

theorem hours_at_base_unclamped:
  assumes "process_user tie ra f sd ed pd u sj ad lj cr ca = Some data"
  shows "preview_hours_worked data =
           min (total_hours_display data - on_call_hours data) (fixed_hours data - on_call_hours data) \<and>
         excel_hours data =
           min (total_hours_display data - on_call_hours data) (fixed_hours data - on_call_hours data) \<and>
         (fixed_hours data < on_call_hours data \<longrightarrow>
            preview_hours_worked data < 0 \<and> excel_hours data < 0 \<and>
            (pay_type data \<noteq> Some ''annual'' \<longrightarrow>
               preview_total_pay overtime_rate data =
                 preview_hours_worked data * rate_1 data
                 + (sum_list (map (\<lambda>(role_id, rd). hours rd * rate rd) (custom_role_hours data))
                    + on_call_hours data * rate_1 data
                    + of_int (on_call_shift_count data) * ON_CALL_FLAT_RATE
                    + preview_overtime_hrs data * overtime_rate
                    + holiday_hours data * rate_1 data) \<and>
               (0 < rate_1 data \<longrightarrow> preview_hours_worked data * rate_1 data < 0)))"
proof -
  have d: "data = fst (user_totals tie ra f sd ed pd u sj ad lj cr ca)"
    using assms by (simp add: process_user_def Let_def split: if_splits)
  have disp: "total_hours_display data = total_hours data + on_call_hours data"
    unfolding d by (rule user_totals_display)
  have h: "preview_hours_worked data =
           min (total_hours_display data - on_call_hours data) (fixed_hours data - on_call_hours data)"
    using disp by (simp add: preview_hours_worked_def)
  have e: "excel_hours data =
           min (total_hours_display data - on_call_hours data) (fixed_hours data - on_call_hours data)"
    by (simp add: excel_hours_def)
  have neg: "preview_hours_worked data < 0 \<and> excel_hours data < 0"
    if "fixed_hours data < on_call_hours data"
    using that unfolding h e by simp
  have pay: "preview_total_pay overtime_rate data =
                 preview_hours_worked data * rate_1 data
                 + (sum_list (map (\<lambda>(role_id, rd). hours rd * rate rd) (custom_role_hours data))
                    + on_call_hours data * rate_1 data
                    + of_int (on_call_shift_count data) * ON_CALL_FLAT_RATE
                    + preview_overtime_hrs data * overtime_rate
                    + holiday_hours data * rate_1 data)"
    if "pay_type data \<noteq> Some ''annual''"
    using that by (simp add: preview_total_pay_def Let_def)
  have neg_term: "preview_hours_worked data * rate_1 data < 0"
    if "fixed_hours data < on_call_hours data" "0 < rate_1 data"
    using neg [OF that(1)] that(2) by (simp add: mult_neg_pos)
  from h e neg pay neg_term show ?thesis by blast
qed

text \<open>
  Claim C7. An employee with assigned on-call shifts but no worked on-call hours, no
  other shift hours, no holiday days or hours and no sickness days is not appended to
  \<open>payroll_data\<close>: no row, and so no on-call flat-rate pay, is produced for the
  assigned shifts.
\<close>

theorem unattended_on_call_only_excluded:
  assumes "total_hours (fst (user_totals tie ra f sd ed pd u sj ad lj cr ca)) = 0"
    and "on_call_hours (fst (user_totals tie ra f sd ed pd u sj ad lj cr ca)) = 0"
    and "holiday_days (fst (user_totals tie ra f sd ed pd u sj ad lj cr ca)) = 0"
    and "holiday_hours (fst (user_totals tie ra f sd ed pd u sj ad lj cr ca)) = 0"
    and "sickness_days (fst (user_totals tie ra f sd ed pd u sj ad lj cr ca)) = 0"
    and "0 < on_call_shift_count (fst (user_totals tie ra f sd ed pd u sj ad lj cr ca))"
  shows "process_user tie ra f sd ed pd u sj ad lj cr ca = None"
  using assms by (simp add: process_user_def Let_def)


theorem hours_at_base_unclamped_witness:
  "process_user (\<lambda>x. False) (\<lambda>r. if r = 7 then ''On-Call'' else ''Care'') (Some :: int \<Rightarrow> int option)
     \<lparr>year = 2025, month = 1, day = 11\<rparr> \<lparr>year = 2025, month = 2, day = 10\<rparr> 31
     \<lparr>u_id = Some 1, u_first_name = ''A'', u_last_name = ''B'', u_salary_type = Some ''hourly'',
      u_salary = Some 10, u_weekly_hours = None, u_role_rates = []\<rparr>
     (Some [\<lparr>raw_id = Some 5, raw_start_time = Some 1000, raw_end_time = Some 8200,
             raw_minutes_break = None, raw_role = Some 7\<rparr>])
     (Some [\<lparr>shift = Some 5, in_time = Some 1000, out_time = Some 8200, deleted = False\<rparr>])
     None [] []
   = Some \<lparr>employee_name = ''A B'', pay_type = Some ''hourly'', annual_salary = 0,
      hourly_rate = 10, weekly_hours = 0, total_hours = 0, total_hours_display = 2,
      fixed_hours = 0, rate_1 = 10, base_rate_hours = 0, custom_role_hours = [],
      on_call_hours = 2, on_call_shift_count = 1, holiday_days = 0, holiday_hours = 0,
      sickness_days = 0\<rparr> \<and>
   preview_hours_worked \<lparr>employee_name = ''A B'', pay_type = Some ''hourly'', annual_salary = 0,
      hourly_rate = 10, weekly_hours = 0, total_hours = 0, total_hours_display = 2,
      fixed_hours = 0, rate_1 = 10, base_rate_hours = 0, custom_role_hours = [],
      on_call_hours = 2, on_call_shift_count = 1, holiday_days = 0, holiday_hours = 0,
      sickness_days = 0\<rparr> = - 2 \<and>
   preview_total_pay UK_MINIMUM_WAGE \<lparr>employee_name = ''A B'', pay_type = Some ''hourly'', annual_salary = 0,
      hourly_rate = 10, weekly_hours = 0, total_hours = 0, total_hours_display = 2,
      fixed_hours = 0, rate_1 = 10, base_rate_hours = 0, custom_role_hours = [],
      on_call_hours = 2, on_call_shift_count = 1, holiday_days = 0, holiday_hours = 0,
      sickness_days = 0\<rparr> = 3942 / 100"
proof -
  let ?d = "\<lparr>employee_name = ''A B'', pay_type = Some ''hourly'', annual_salary = 0,
      hourly_rate = 10, weekly_hours = 0, total_hours = 0, total_hours_display = 2,
      fixed_hours = 0, rate_1 = 10, base_rate_hours = 0, custom_role_hours = [],
      on_call_hours = 2, on_call_shift_count = 1, holiday_days = 0, holiday_hours = 0,
      sickness_days = 0\<rparr>"
  have p: "process_user (\<lambda>x. False) (\<lambda>r. if r = 7 then ''On-Call'' else ''Care'') (Some :: int \<Rightarrow> int option)
     \<lparr>year = 2025, month = 1, day = 11\<rparr> \<lparr>year = 2025, month = 2, day = 10\<rparr> 31
     \<lparr>u_id = Some 1, u_first_name = ''A'', u_last_name = ''B'', u_salary_type = Some ''hourly'',
      u_salary = Some 10, u_weekly_hours = None, u_role_rates = []\<rparr>
     (Some [\<lparr>raw_id = Some 5, raw_start_time = Some 1000, raw_end_time = Some 8200,
             raw_minutes_break = None, raw_role = Some 7\<rparr>])
     (Some [\<lparr>shift = Some 5, in_time = Some 1000, out_time = Some 8200, deleted = False\<rparr>])
     None [] [] = Some ?d"
    by code_simp
  have c: "sum_list (map (\<lambda>(role_id, rd). hours rd * rate rd) (custom_role_hours ?d)) = 0"
    by simp
  have o: "preview_overtime_hrs ?d = 2" by (simp add: preview_overtime_hrs_def)
  from hours_at_base_unclamped [OF p, of UK_MINIMUM_WAGE] c o p show ?thesis
    by (simp add: UK_MINIMUM_WAGE_def ON_CALL_FLAT_RATE_def)
qed

theorem unattended_on_call_only_excluded_witness:
  "on_call_shift_count (fst (user_totals (\<lambda>x. False) (\<lambda>r. if r = 7 then ''On-Call'' else ''Care'') (Some :: int \<Rightarrow> int option)
     \<lparr>year = 2025, month = 1, day = 11\<rparr> \<lparr>year = 2025, month = 2, day = 10\<rparr> 31
     \<lparr>u_id = Some 1, u_first_name = ''A'', u_last_name = ''B'', u_salary_type = Some ''hourly'',
      u_salary = Some 10, u_weekly_hours = Some 40, u_role_rates = []\<rparr>
     (Some [\<lparr>raw_id = Some 5, raw_start_time = Some 1000, raw_end_time = Some 8200,
             raw_minutes_break = None, raw_role = Some 7\<rparr>])
     None None [] [])) = 1 \<and>
   process_user (\<lambda>x. False) (\<lambda>r. if r = 7 then ''On-Call'' else ''Care'') (Some :: int \<Rightarrow> int option)
     \<lparr>year = 2025, month = 1, day = 11\<rparr> \<lparr>year = 2025, month = 2, day = 10\<rparr> 31
     \<lparr>u_id = Some 1, u_first_name = ''A'', u_last_name = ''B'', u_salary_type = Some ''hourly'',
      u_salary = Some 10, u_weekly_hours = Some 40, u_role_rates = []\<rparr>
     (Some [\<lparr>raw_id = Some 5, raw_start_time = Some 1000, raw_end_time = Some 8200,
             raw_minutes_break = None, raw_role = Some 7\<rparr>])
     None None [] [] = None"
proof -
  let ?t = "fst (user_totals (\<lambda>x. False) (\<lambda>r. if r = 7 then ''On-Call'' else ''Care'') (Some :: int \<Rightarrow> int option)
     \<lparr>year = 2025, month = 1, day = 11\<rparr> \<lparr>year = 2025, month = 2, day = 10\<rparr> 31
     \<lparr>u_id = Some 1, u_first_name = ''A'', u_last_name = ''B'', u_salary_type = Some ''hourly'',
      u_salary = Some 10, u_weekly_hours = Some 40, u_role_rates = []\<rparr>
     (Some [\<lparr>raw_id = Some 5, raw_start_time = Some 1000, raw_end_time = Some 8200,
             raw_minutes_break = None, raw_role = Some 7\<rparr>])
     None None [] [])"
  have t: "?t = \<lparr>employee_name = ''A B'', pay_type = Some ''hourly'', annual_salary = 0,
      hourly_rate = 10, weekly_hours = 40, total_hours = 0, total_hours_display = 0,
      fixed_hours = 17714 / 100, rate_1 = 10, base_rate_hours = 0, custom_role_hours = [],
      on_call_hours = 0, on_call_shift_count = 1, holiday_days = 0, holiday_hours = 0,
      sickness_days = 0\<rparr>"
    by code_simp
  have a: "total_hours ?t = 0" unfolding t by simp
  have b: "on_call_hours ?t = 0" unfolding t by simp
  have c: "holiday_days ?t = 0" unfolding t by simp
  have d: "holiday_hours ?t = 0" unfolding t by simp
  have e: "sickness_days ?t = 0" unfolding t by simp
  have n: "on_call_shift_count ?t = 1" unfolding t by simp
  then have g: "0 < on_call_shift_count ?t" by simp
  from unattended_on_call_only_excluded [OF a b c d e g] n show ?thesis by blast
qed

section \<open>Routing of shifts (C6)\<close>

lemma classify_shift_role_name:
  "(case map_of (case map_of c role_id of
                   None \<Rightarrow> AList.update role_id (get_role_name api role_id) c
                 | Some _ \<Rightarrow> c) role_id of
      None \<Rightarrow> ''Unknown'' | Some n \<Rightarrow> n)
   = (case map_of c role_id of None \<Rightarrow> get_role_name api role_id | Some n \<Rightarrow> n)"
  by (simp add: update_conv' split: option.splits)

lemma classify_shift_cache:
  "resolved_role_name api (role_id_to_name (classify_shift api rates st sh)) sh'
   = resolved_role_name api (role_id_to_name st) sh'"
  by (auto simp: classify_shift_def Let_def resolved_role_name_def update_conv'
      split: option.splits)

lemma classify_shift_on_call:
  "on_call_shifts (classify_shift api rates st sh) =
     on_call_shifts st @
       (if routed_on_call api (role_id_to_name st) sh then [on_call_stub sh] else [])"
  unfolding classify_shift_def Let_def classify_shift_role_name
  by (auto simp: routed_on_call_def shift_present_def resolved_role_name_def
      on_call_stub_def split: option.splits)

lemma classify_shift_base:
  "base_rate_seconds (classify_shift api rates st sh) =
     base_rate_seconds st +
       (if routed_base api (role_id_to_name st) rates sh then shift_net_seconds sh else 0)"
  unfolding classify_shift_def Let_def classify_shift_role_name
  by (auto simp: routed_base_def shift_present_def resolved_role_name_def has_custom_rate_def
      shift_net_seconds_def split: option.splits)

lemma classify_shift_total:
  "total_seconds (classify_shift api rates st sh) =
     total_seconds st +
       (if shift_present sh \<and> \<not> routed_on_call api (role_id_to_name st) sh
        then shift_net_seconds sh else 0)"
  unfolding classify_shift_def Let_def classify_shift_role_name
  by (auto simp: routed_on_call_def shift_present_def resolved_role_name_def
      shift_net_seconds_def split: option.splits)

lemma classify_shift_role_hours:
  "map_of (role_hours (classify_shift api rates st sh)) r =
     (if routed_custom api (role_id_to_name st) rates r sh
      then Some \<lparr>seconds = (case map_of (role_hours st) r of None \<Rightarrow> 0 | Some b \<Rightarrow> seconds b)
                             + shift_net_seconds sh,
                  seconds_rate = (case map_of (role_hours st) r of
                                    None \<Rightarrow> the (map_of rates r) | Some b \<Rightarrow> seconds_rate b),
                  seconds_name = (case map_of (role_hours st) r of
                                    None \<Rightarrow> get_role_name api (Some r) | Some b \<Rightarrow> seconds_name b)\<rparr>
      else map_of (role_hours st) r)"
  unfolding classify_shift_def Let_def classify_shift_role_name
  by (auto simp: routed_custom_def shift_present_def resolved_role_name_def has_custom_rate_def
      shift_net_seconds_def update_conv' py_truthy_def split: option.splits)


lemma classify_shift_routes:
  "routed_on_call api (role_id_to_name (classify_shift api rates st sh)) =
     routed_on_call api (role_id_to_name st)"
  "routed_base api (role_id_to_name (classify_shift api rates st sh)) rates =
     routed_base api (role_id_to_name st) rates"
  "routed_custom api (role_id_to_name (classify_shift api rates st sh)) rates r =
     routed_custom api (role_id_to_name st) rates r"
  by (simp_all add: fun_eq_iff routed_on_call_def routed_base_def routed_custom_def
      classify_shift_cache)

lemma classify_shifts_on_call:
  "on_call_shifts (classify_shifts api rates shifts st) =
     on_call_shifts st @ map on_call_stub (filter (routed_on_call api (role_id_to_name st)) shifts)"
proof (induction shifts arbitrary: st)
  case Nil
  then show ?case by simp
next
  case (Cons sh rest)
  show ?case
    by (simp add: Cons.IH classify_shift_routes classify_shift_on_call)
qed

lemma classify_shifts_base:
  "base_rate_seconds (classify_shifts api rates shifts st) =
     base_rate_seconds st
     + sum_list (map shift_net_seconds (filter (routed_base api (role_id_to_name st) rates) shifts))"
proof (induction shifts arbitrary: st)
  case Nil
  then show ?case by simp
next
  case (Cons sh rest)
  show ?case
    by (simp add: Cons.IH classify_shift_routes classify_shift_base)
qed

lemma classify_shifts_total:
  "total_seconds (classify_shifts api rates shifts st) =
     total_seconds st
     + sum_list (map shift_net_seconds
         (filter (\<lambda>sh. shift_present sh \<and> \<not> routed_on_call api (role_id_to_name st) sh) shifts))"
proof (induction shifts arbitrary: st)
  case Nil
  then show ?case by simp
next
  case (Cons sh rest)
  show ?case
    by (simp add: Cons.IH classify_shift_routes classify_shift_total)
qed

lemma classify_shifts_role_hours:
  "map_of (role_hours (classify_shifts api rates shifts st)) r =
     (if filter (routed_custom api (role_id_to_name st) rates r) shifts = []
      then map_of (role_hours st) r
      else Some \<lparr>seconds = (case map_of (role_hours st) r of None \<Rightarrow> 0 | Some b \<Rightarrow> seconds b)
                   + sum_list (map shift_net_seconds
                       (filter (routed_custom api (role_id_to_name st) rates r) shifts)),
                  seconds_rate = (case map_of (role_hours st) r of
                                    None \<Rightarrow> the (map_of rates r) | Some b \<Rightarrow> seconds_rate b),
                  seconds_name = (case map_of (role_hours st) r of
                                    None \<Rightarrow> get_role_name api (Some r) | Some b \<Rightarrow> seconds_name b)\<rparr>)"
proof (induction shifts arbitrary: st)
  case Nil
  then show ?case by simp
next
  case (Cons sh rest)
  show ?case
    by (simp add: Cons.IH classify_shift_routes classify_shift_role_hours)
qed

lemma map_of_converted:
  "map_of (map (\<lambda>(role_id, data).
                  (role_id, \<lparr>hours = py_round tie (of_int (seconds data) / 3600) 2,
                             rate = seconds_rate data, name = seconds_name data\<rparr>)) xs) r
   = map_option (\<lambda>data. \<lparr>hours = py_round tie (of_int (seconds data) / 3600) 2,
                           rate = seconds_rate data, name = seconds_name data\<rparr>) (map_of xs r)"
  by (induction xs) auto

lemma calculate_shift_hours_by_role_unfold:
  "calculate_shift_hours_by_role tie api shifts_json pay custom_roles cache =
     (let shifts = (case shifts_json of None \<Rightarrow> [] | Some l \<Rightarrow> l);
          st = classify_shifts api (pd_role_rates pay) shifts
                      \<lparr>total_seconds = 0, base_rate_seconds = 0, role_hours = [],
                       on_call_shifts = [], all_custom_roles = custom_roles,
                       role_id_to_name = cache\<rparr>
      in ((py_round tie (of_int (total_seconds st) / 3600) 2,
           py_round tie (of_int (base_rate_seconds st) / 3600) 2,
           map (\<lambda>(role_id, data).
                  (role_id, \<lparr>hours = py_round tie (of_int (seconds data) / 3600) 2,
                             rate = seconds_rate data, name = seconds_name data\<rparr>))
               (role_hours st),
           on_call_shifts st),
          all_custom_roles st, role_id_to_name st))"
  by (simp add: calculate_shift_hours_by_role_def Let_def split: option.splits list.splits)

text \<open>
  Claim C6. For every shift list, the on-call stubs returned are, in order, one stub
  for each shift that has both timestamps and whose role resolves to the name
  \<open>On-Call\<close>; the base-rate hours are \<open>round\<close> of the net seconds, over 3600, of
  exactly the shifts routed to the base bucket; the bucket of a role holds \<open>round\<close>
  of the net seconds, over 3600, of exactly the shifts routed to that role, and a role
  with no such shift has no bucket; the total hours are those of the shifts with both
  timestamps that are not on-call. This holds whichever way \<open>round\<close> takes a value
  exactly between two hundredths.
  Every shift with both timestamps meets exactly one of the three routing conditions
  (on-call, base, the bucket of its own role), an on-call shift meeting neither of the
  other two whatever rate its role has, and a shift missing a timestamp meets none.
\<close>

theorem shift_routed_once:
  fixes tie :: "rat \<Rightarrow> bool"
    and roles_api :: "int \<Rightarrow> string"
    and shifts_json :: "raw_shift list option"
    and pay :: pay_details
    and custom_roles :: "(int \<times> string) list"
    and cache :: "(int option \<times> string) list"
  defines "shifts \<equiv> (case shifts_json of None \<Rightarrow> [] | Some l \<Rightarrow> l)"
  defines "res \<equiv> fst (calculate_shift_hours_by_role tie roles_api shifts_json pay custom_roles cache)"
  defines "rates \<equiv> pd_role_rates pay"
  shows "snd (snd (snd res)) = map on_call_stub (filter (routed_on_call roles_api cache) shifts) \<and>
         fst (snd res) =
           py_round tie (of_int (sum_list (map shift_net_seconds
                       (filter (routed_base roles_api cache rates) shifts))) / 3600) 2 \<and>
         map_of (fst (snd (snd res))) r =
           (if filter (routed_custom roles_api cache rates r) shifts = [] then None
            else Some \<lparr>hours = py_round tie (of_int (sum_list (map shift_net_seconds
                                   (filter (routed_custom roles_api cache rates r) shifts))) / 3600) 2,
                        rate = the (map_of rates r),
                        name = get_role_name roles_api (Some r)\<rparr>) \<and>
         fst res =
           py_round tie (of_int (sum_list (map shift_net_seconds
                       (filter (\<lambda>sh. shift_present sh \<and> \<not> routed_on_call roles_api cache sh)
                          shifts))) / 3600) 2 \<and>
         (\<forall>sh \<in> set shifts.
            if shift_present sh
            then (routed_on_call roles_api cache sh \<and> \<not> routed_base roles_api cache rates sh \<and>
                    (\<forall>q. \<not> routed_custom roles_api cache rates q sh)) \<or>
                 (\<not> routed_on_call roles_api cache sh \<and> routed_base roles_api cache rates sh \<and>
                    (\<forall>q. \<not> routed_custom roles_api cache rates q sh)) \<or>
                 (\<not> routed_on_call roles_api cache sh \<and> \<not> routed_base roles_api cache rates sh \<and>
                    (\<exists>q. raw_role sh = Some q \<and>
                         (\<forall>q'. routed_custom roles_api cache rates q' sh \<longleftrightarrow> q' = q)))
            else \<not> routed_on_call roles_api cache sh \<and> \<not> routed_base roles_api cache rates sh \<and>
                 (\<forall>q. \<not> routed_custom roles_api cache rates q sh))"
proof -
  let ?st = "classify_shifts roles_api rates shifts
                      \<lparr>total_seconds = 0, base_rate_seconds = 0, role_hours = [],
                       on_call_shifts = [], all_custom_roles = custom_roles,
                       role_id_to_name = cache\<rparr>"
  have res: "res = (py_round tie (of_int (total_seconds ?st) / 3600) 2,
           py_round tie (of_int (base_rate_seconds ?st) / 3600) 2,
           map (\<lambda>(role_id, data).
                  (role_id, \<lparr>hours = py_round tie (of_int (seconds data) / 3600) 2,
                             rate = seconds_rate data, name = seconds_name data\<rparr>))
               (role_hours ?st),
           on_call_shifts ?st)"
    unfolding res_def shifts_def rates_def calculate_shift_hours_by_role_unfold
    by (simp add: Let_def)
  have a: "snd (snd (snd res)) = map on_call_stub (filter (routed_on_call roles_api cache) shifts)"
    unfolding res by (simp add: classify_shifts_on_call)
  have b: "fst (snd res) =
           py_round tie (of_int (sum_list (map shift_net_seconds
                       (filter (routed_base roles_api cache rates) shifts))) / 3600) 2"
    unfolding res by (simp add: classify_shifts_base)
  have c: "map_of (fst (snd (snd res))) r =
           (if filter (routed_custom roles_api cache rates r) shifts = [] then None
            else Some \<lparr>hours = py_round tie (of_int (sum_list (map shift_net_seconds
                                   (filter (routed_custom roles_api cache rates r) shifts))) / 3600) 2,
                        rate = the (map_of rates r),
                        name = get_role_name roles_api (Some r)\<rparr>)"
    unfolding res by (simp add: map_of_converted classify_shifts_role_hours)
  have d: "fst res =
           py_round tie (of_int (sum_list (map shift_net_seconds
                       (filter (\<lambda>sh. shift_present sh \<and> \<not> routed_on_call roles_api cache sh)
                          shifts))) / 3600) 2"
    unfolding res by (simp add: classify_shifts_total)
  have e: "if shift_present sh
            then (routed_on_call roles_api cache sh \<and> \<not> routed_base roles_api cache rates sh \<and>
                    (\<forall>q. \<not> routed_custom roles_api cache rates q sh)) \<or>
                 (\<not> routed_on_call roles_api cache sh \<and> routed_base roles_api cache rates sh \<and>
                    (\<forall>q. \<not> routed_custom roles_api cache rates q sh)) \<or>
                 (\<not> routed_on_call roles_api cache sh \<and> \<not> routed_base roles_api cache rates sh \<and>
                    (\<exists>q. raw_role sh = Some q \<and>
                         (\<forall>q'. routed_custom roles_api cache rates q' sh \<longleftrightarrow> q' = q)))
            else \<not> routed_on_call roles_api cache sh \<and> \<not> routed_base roles_api cache rates sh \<and>
                 (\<forall>q. \<not> routed_custom roles_api cache rates q sh)" for sh
    by (cases "raw_role sh")
       (auto simp: routed_on_call_def routed_base_def routed_custom_def has_custom_rate_def
          py_truthy_def)
  from a b c d e show ?thesis by blast
qed


text \<open>
  An on-call shift whose role has a rate, a base shift with a break, a shift of a role
  with a rate and a shift without end time: one stub, one base hour, no bucket for the
  on-call role and two hours in the bucket of the other. A base shift of 18 seconds is
  0.005 hours: 0.01 when \<open>round\<close> takes 0.005 upwards, 0 when downwards.
\<close>

theorem shift_routed_once_witness:
  "snd (snd (snd (fst (calculate_shift_hours_by_role (\<lambda>x. False) (\<lambda>r. if r = 7 then ''On-Call'' else ''Care'')
      (Some [\<lparr>raw_id = Some 5, raw_start_time = Some 1000, raw_end_time = Some 8200,
             raw_minutes_break = None, raw_role = Some 7\<rparr>,
            \<lparr>raw_id = Some 6, raw_start_time = Some 0, raw_end_time = Some 7200,
             raw_minutes_break = Some 60, raw_role = Some 2\<rparr>,
            \<lparr>raw_id = Some 8, raw_start_time = Some 0, raw_end_time = Some 7200,
             raw_minutes_break = None, raw_role = Some 3\<rparr>,
            \<lparr>raw_id = Some 9, raw_start_time = Some 0, raw_end_time = None,
             raw_minutes_break = None, raw_role = Some 3\<rparr>])
      \<lparr>pd_pay_type = Some ''hourly'', pd_hourly_rate = 14, pd_annual_salary = 0,
       pd_role_rates = [(7, 30), (3, 20)], pd_standard_weekly_hours = 40\<rparr> [] [])))) =
     [\<lparr>shift_id = Some 5, start_time = 1000, end_time = 8200, minutes_break = 0\<rparr>] \<and>
   fst (snd (fst (calculate_shift_hours_by_role (\<lambda>x. False) (\<lambda>r. if r = 7 then ''On-Call'' else ''Care'')
      (Some [\<lparr>raw_id = Some 5, raw_start_time = Some 1000, raw_end_time = Some 8200,
             raw_minutes_break = None, raw_role = Some 7\<rparr>,
            \<lparr>raw_id = Some 6, raw_start_time = Some 0, raw_end_time = Some 7200,
             raw_minutes_break = Some 60, raw_role = Some 2\<rparr>,
            \<lparr>raw_id = Some 8, raw_start_time = Some 0, raw_end_time = Some 7200,
             raw_minutes_break = None, raw_role = Some 3\<rparr>,
            \<lparr>raw_id = Some 9, raw_start_time = Some 0, raw_end_time = None,
             raw_minutes_break = None, raw_role = Some 3\<rparr>])
      \<lparr>pd_pay_type = Some ''hourly'', pd_hourly_rate = 14, pd_annual_salary = 0,
       pd_role_rates = [(7, 30), (3, 20)], pd_standard_weekly_hours = 40\<rparr> [] []))) = 1 \<and>
   map_of (fst (snd (snd (fst (calculate_shift_hours_by_role (\<lambda>x. False) (\<lambda>r. if r = 7 then ''On-Call'' else ''Care'')
      (Some [\<lparr>raw_id = Some 5, raw_start_time = Some 1000, raw_end_time = Some 8200,
             raw_minutes_break = None, raw_role = Some 7\<rparr>,
            \<lparr>raw_id = Some 6, raw_start_time = Some 0, raw_end_time = Some 7200,
             raw_minutes_break = Some 60, raw_role = Some 2\<rparr>,
            \<lparr>raw_id = Some 8, raw_start_time = Some 0, raw_end_time = Some 7200,
             raw_minutes_break = None, raw_role = Some 3\<rparr>,
            \<lparr>raw_id = Some 9, raw_start_time = Some 0, raw_end_time = None,
             raw_minutes_break = None, raw_role = Some 3\<rparr>])
      \<lparr>pd_pay_type = Some ''hourly'', pd_hourly_rate = 14, pd_annual_salary = 0,
       pd_role_rates = [(7, 30), (3, 20)], pd_standard_weekly_hours = 40\<rparr> [] []))))) 7 = None \<and>
   map_of (fst (snd (snd (fst (calculate_shift_hours_by_role (\<lambda>x. False) (\<lambda>r. if r = 7 then ''On-Call'' else ''Care'')
      (Some [\<lparr>raw_id = Some 5, raw_start_time = Some 1000, raw_end_time = Some 8200,
             raw_minutes_break = None, raw_role = Some 7\<rparr>,
            \<lparr>raw_id = Some 6, raw_start_time = Some 0, raw_end_time = Some 7200,
             raw_minutes_break = Some 60, raw_role = Some 2\<rparr>,
            \<lparr>raw_id = Some 8, raw_start_time = Some 0, raw_end_time = Some 7200,
             raw_minutes_break = None, raw_role = Some 3\<rparr>,
            \<lparr>raw_id = Some 9, raw_start_time = Some 0, raw_end_time = None,
             raw_minutes_break = None, raw_role = Some 3\<rparr>])
      \<lparr>pd_pay_type = Some ''hourly'', pd_hourly_rate = 14, pd_annual_salary = 0,
       pd_role_rates = [(7, 30), (3, 20)], pd_standard_weekly_hours = 40\<rparr> [] []))))) 3 =
     Some \<lparr>hours = 2, rate = 20, name = ''Care''\<rparr> \<and>
   fst (snd (fst (calculate_shift_hours_by_role (\<lambda>x. True) (\<lambda>r. if r = 7 then ''On-Call'' else ''Care'')
      (Some [\<lparr>raw_id = Some 6, raw_start_time = Some 0, raw_end_time = Some 18,
             raw_minutes_break = None, raw_role = Some 2\<rparr>])
      \<lparr>pd_pay_type = Some ''hourly'', pd_hourly_rate = 14, pd_annual_salary = 0,
       pd_role_rates = [(7, 30), (3, 20)], pd_standard_weekly_hours = 40\<rparr> [] []))) = 1 / 100 \<and>
   fst (snd (fst (calculate_shift_hours_by_role (\<lambda>x. False) (\<lambda>r. if r = 7 then ''On-Call'' else ''Care'')
      (Some [\<lparr>raw_id = Some 6, raw_start_time = Some 0, raw_end_time = Some 18,
             raw_minutes_break = None, raw_role = Some 2\<rparr>])
      \<lparr>pd_pay_type = Some ''hourly'', pd_hourly_rate = 14, pd_annual_salary = 0,
       pd_role_rates = [(7, 30), (3, 20)], pd_standard_weekly_hours = 40\<rparr> [] []))) = 0"
proof -
  have a: "snd (snd (snd (fst (calculate_shift_hours_by_role (\<lambda>x. False) (\<lambda>r. if r = 7 then ''On-Call'' else ''Care'')
      (Some [\<lparr>raw_id = Some 5, raw_start_time = Some 1000, raw_end_time = Some 8200,
             raw_minutes_break = None, raw_role = Some 7\<rparr>,
            \<lparr>raw_id = Some 6, raw_start_time = Some 0, raw_end_time = Some 7200,
             raw_minutes_break = Some 60, raw_role = Some 2\<rparr>,
            \<lparr>raw_id = Some 8, raw_start_time = Some 0, raw_end_time = Some 7200,
             raw_minutes_break = None, raw_role = Some 3\<rparr>,
            \<lparr>raw_id = Some 9, raw_start_time = Some 0, raw_end_time = None,
             raw_minutes_break = None, raw_role = Some 3\<rparr>])
      \<lparr>pd_pay_type = Some ''hourly'', pd_hourly_rate = 14, pd_annual_salary = 0,
       pd_role_rates = [(7, 30), (3, 20)], pd_standard_weekly_hours = 40\<rparr> [] [])))) =
     [\<lparr>shift_id = Some 5, start_time = 1000, end_time = 8200, minutes_break = 0\<rparr>] \<and>
   fst (snd (fst (calculate_shift_hours_by_role (\<lambda>x. False) (\<lambda>r. if r = 7 then ''On-Call'' else ''Care'')
      (Some [\<lparr>raw_id = Some 5, raw_start_time = Some 1000, raw_end_time = Some 8200,
             raw_minutes_break = None, raw_role = Some 7\<rparr>,
            \<lparr>raw_id = Some 6, raw_start_time = Some 0, raw_end_time = Some 7200,
             raw_minutes_break = Some 60, raw_role = Some 2\<rparr>,
            \<lparr>raw_id = Some 8, raw_start_time = Some 0, raw_end_time = Some 7200,
             raw_minutes_break = None, raw_role = Some 3\<rparr>,
            \<lparr>raw_id = Some 9, raw_start_time = Some 0, raw_end_time = None,
             raw_minutes_break = None, raw_role = Some 3\<rparr>])
      \<lparr>pd_pay_type = Some ''hourly'', pd_hourly_rate = 14, pd_annual_salary = 0,
       pd_role_rates = [(7, 30), (3, 20)], pd_standard_weekly_hours = 40\<rparr> [] []))) = 1 \<and>
   map_of (fst (snd (snd (fst (calculate_shift_hours_by_role (\<lambda>x. False) (\<lambda>r. if r = 7 then ''On-Call'' else ''Care'')
      (Some [\<lparr>raw_id = Some 5, raw_start_time = Some 1000, raw_end_time = Some 8200,
             raw_minutes_break = None, raw_role = Some 7\<rparr>,
            \<lparr>raw_id = Some 6, raw_start_time = Some 0, raw_end_time = Some 7200,
             raw_minutes_break = Some 60, raw_role = Some 2\<rparr>,
            \<lparr>raw_id = Some 8, raw_start_time = Some 0, raw_end_time = Some 7200,
             raw_minutes_break = None, raw_role = Some 3\<rparr>,
            \<lparr>raw_id = Some 9, raw_start_time = Some 0, raw_end_time = None,
             raw_minutes_break = None, raw_role = Some 3\<rparr>])
      \<lparr>pd_pay_type = Some ''hourly'', pd_hourly_rate = 14, pd_annual_salary = 0,
       pd_role_rates = [(7, 30), (3, 20)], pd_standard_weekly_hours = 40\<rparr> [] []))))) 7 = None \<and>
   map_of (fst (snd (snd (fst (calculate_shift_hours_by_role (\<lambda>x. False) (\<lambda>r. if r = 7 then ''On-Call'' else ''Care'')
      (Some [\<lparr>raw_id = Some 5, raw_start_time = Some 1000, raw_end_time = Some 8200,
             raw_minutes_break = None, raw_role = Some 7\<rparr>,
            \<lparr>raw_id = Some 6, raw_start_time = Some 0, raw_end_time = Some 7200,
             raw_minutes_break = Some 60, raw_role = Some 2\<rparr>,
            \<lparr>raw_id = Some 8, raw_start_time = Some 0, raw_end_time = Some 7200,
             raw_minutes_break = None, raw_role = Some 3\<rparr>,
            \<lparr>raw_id = Some 9, raw_start_time = Some 0, raw_end_time = None,
             raw_minutes_break = None, raw_role = Some 3\<rparr>])
      \<lparr>pd_pay_type = Some ''hourly'', pd_hourly_rate = 14, pd_annual_salary = 0,
       pd_role_rates = [(7, 30), (3, 20)], pd_standard_weekly_hours = 40\<rparr> [] []))))) 3 =
     Some \<lparr>hours = 2, rate = 20, name = ''Care''\<rparr>"
    using shift_routed_once [of "\<lambda>x. False" "(\<lambda>r. if r = 7 then ''On-Call'' else ''Care'')" "(Some [\<lparr>raw_id = Some 5, raw_start_time = Some 1000, raw_end_time = Some 8200,
               raw_minutes_break = None, raw_role = Some 7\<rparr>,
              \<lparr>raw_id = Some 6, raw_start_time = Some 0, raw_end_time = Some 7200,
               raw_minutes_break = Some 60, raw_role = Some 2\<rparr>,
              \<lparr>raw_id = Some 8, raw_start_time = Some 0, raw_end_time = Some 7200,
               raw_minutes_break = None, raw_role = Some 3\<rparr>,
              \<lparr>raw_id = Some 9, raw_start_time = Some 0, raw_end_time = None,
               raw_minutes_break = None, raw_role = Some 3\<rparr>])" "\<lparr>pd_pay_type = Some ''hourly'', pd_hourly_rate = 14, pd_annual_salary = 0,
         pd_role_rates = [(7, 30), (3, 20)], pd_standard_weekly_hours = 40\<rparr>" "[]" "[]" 7]
      shift_routed_once [of "\<lambda>x. False" "(\<lambda>r. if r = 7 then ''On-Call'' else ''Care'')" "(Some [\<lparr>raw_id = Some 5, raw_start_time = Some 1000, raw_end_time = Some 8200,
               raw_minutes_break = None, raw_role = Some 7\<rparr>,
              \<lparr>raw_id = Some 6, raw_start_time = Some 0, raw_end_time = Some 7200,
               raw_minutes_break = Some 60, raw_role = Some 2\<rparr>,
              \<lparr>raw_id = Some 8, raw_start_time = Some 0, raw_end_time = Some 7200,
               raw_minutes_break = None, raw_role = Some 3\<rparr>,
              \<lparr>raw_id = Some 9, raw_start_time = Some 0, raw_end_time = None,
               raw_minutes_break = None, raw_role = Some 3\<rparr>])" "\<lparr>pd_pay_type = Some ''hourly'', pd_hourly_rate = 14, pd_annual_salary = 0,
         pd_role_rates = [(7, 30), (3, 20)], pd_standard_weekly_hours = 40\<rparr>" "[]" "[]" 3]
    by (simp add: routed_on_call_def routed_base_def routed_custom_def has_custom_rate_def
        shift_present_def resolved_role_name_def get_role_name_def ON_CALL_ROLE_NAME_def
        py_truthy_def shift_net_seconds_def on_call_stub_def py_round_def round_nearest_def)
  have b: "fst (snd (fst (calculate_shift_hours_by_role (\<lambda>x. True) (\<lambda>r. if r = 7 then ''On-Call'' else ''Care'')
      (Some [\<lparr>raw_id = Some 6, raw_start_time = Some 0, raw_end_time = Some 18,
             raw_minutes_break = None, raw_role = Some 2\<rparr>])
      \<lparr>pd_pay_type = Some ''hourly'', pd_hourly_rate = 14, pd_annual_salary = 0,
       pd_role_rates = [(7, 30), (3, 20)], pd_standard_weekly_hours = 40\<rparr> [] []))) = 1 / 100"
    by code_simp
  have c: "fst (snd (fst (calculate_shift_hours_by_role (\<lambda>x. False) (\<lambda>r. if r = 7 then ''On-Call'' else ''Care'')
      (Some [\<lparr>raw_id = Some 6, raw_start_time = Some 0, raw_end_time = Some 18,
             raw_minutes_break = None, raw_role = Some 2\<rparr>])
      \<lparr>pd_pay_type = Some ''hourly'', pd_hourly_rate = 14, pd_annual_salary = 0,
       pd_role_rates = [(7, 30), (3, 20)], pd_standard_weekly_hours = 40\<rparr> [] []))) = 0"
    by code_simp
  from a b c show ?thesis by blast
qed

end
